theory Spec2Isabelle
  imports Main
begin

section \<open>Python values, exceptions and dictionaries\<close>

text \<open>
  The report, the configuration and the merge payload of \<^verbatim>\<open>coveralls/api.py\<close> are
  untyped Python objects (the results of \<^verbatim>\<open>yaml.safe_load\<close>, \<^verbatim>\<open>json.load\<close> and keyword
  arguments). They are modelled by one datatype of Python values. A \<^verbatim>\<open>dict\<close> is an
  association list in insertion order, with string keys; text is a \<open>string\<close> whose
  characters stand for the code points below 256. Floating point numbers are left out.
\<close>

datatype pyval =
    PNone
  | PBool bool
  | PInt int
  | PStr string
  | PList "pyval list"
  | PDict "(string \<times> pyval) list"

type_synonym dict = "(string \<times> pyval) list"

text \<open>Arguments of a \<^verbatim>\<open>str.format\<close> call, kept unformatted.\<close>

datatype fmt_arg = AInt int | ABytes string | AStr string

text \<open>
  The exceptions that the module raises itself (\<open>CoverallsException\<close>, carrying the
  message template and its format arguments), those that it catches
  (\<open>CoverageException\<close>, \<open>UnicodeDecodeError\<close>, \<open>ValueError\<close>) and those that the Python
  operations it uses raise on ill-typed values.
\<close>

datatype exn =
    CoverallsException string "fmt_arg list"
  | CoverageException string
  | UnicodeDecodeError string
  | ValueError
  | KeyError string
  | TypeError
  | AttributeError
  | IndexError
  | OtherError string

text \<open>Python truthiness: what \<^verbatim>\<open>if x:\<close> and \<^verbatim>\<open>x or y\<close> test.\<close>

fun truthy :: "pyval \<Rightarrow> bool" where
  "truthy PNone = False"
| "truthy (PBool b) = b"
| "truthy (PInt n) = (n \<noteq> 0)"
| "truthy (PStr s) = (s \<noteq> [])"
| "truthy (PList xs) = (xs \<noteq> [])"
| "truthy (PDict d) = (d \<noteq> [])"

text \<open>\<^verbatim>\<open>d[k] = v\<close>: an existing key keeps its position, a new key goes last.\<close>

fun dict_set :: "string \<Rightarrow> pyval \<Rightarrow> dict \<Rightarrow> dict" where
  "dict_set k v [] = [(k, v)]"
| "dict_set k v ((k', v') # d) =
     (if k = k' then (k, v) # d else (k', v') # dict_set k v d)"

text \<open>\<^verbatim>\<open>d.update(e)\<close>: the items of \<open>e\<close> are stored in order.\<close>

fun dict_update :: "dict \<Rightarrow> dict \<Rightarrow> dict" where
  "dict_update d [] = d"
| "dict_update d ((k, v) # e) = dict_update (dict_set k v d) e"

text \<open>\<^verbatim>\<open>d.get(k)\<close> is \<open>map_of d k\<close>; \<^verbatim>\<open>d.get(k, default)\<close>:\<close>

definition dict_get_default :: "dict \<Rightarrow> string \<Rightarrow> pyval \<Rightarrow> pyval" where
  "dict_get_default d k dflt = (case map_of d k of Some v \<Rightarrow> v | None \<Rightarrow> dflt)"

section \<open>Strings\<close>

text \<open>\<^verbatim>\<open>s.split(sep)\<close> for a one-character separator: never an empty list.\<close>

fun split_on :: "char \<Rightarrow> string \<Rightarrow> string list" where
  "split_on sep [] = [[]]"
| "split_on sep (c # cs) =
     (if c = sep then [] # split_on sep cs
      else (case split_on sep cs of
              [] \<Rightarrow> [[c]]
            | seg # segs \<Rightarrow> (c # seg) # segs))"

text \<open>
  \<^verbatim>\<open>s.lower()\<close> on code points below 256: the ASCII capitals and the Latin-1 capitals
  (\<open>0xC0\<close> to \<open>0xDE\<close> without the multiplication sign \<open>0xD7\<close>) move up by 32.
\<close>

definition lower_char :: "char \<Rightarrow> char" where
  "lower_char c =
     (let n = (of_char c :: nat)
      in if (65 \<le> n \<and> n \<le> 90) \<or> (192 \<le> n \<and> n \<le> 222 \<and> n \<noteq> 215)
         then char_of (n + 32) else c)"

definition lower :: "string \<Rightarrow> string" where
  "lower s = map lower_char s"

section \<open>The process environment and CI provider detection\<close>

text \<open>\<^verbatim>\<open>os.environ\<close>: a variable is unset (\<open>None\<close>) or has a text value.\<close>

type_synonym environment = "string \<Rightarrow> string option"

text \<open>\<^verbatim>\<open>if os.environ.get(name):\<close> holds when the variable is set and not empty.\<close>

definition env_truthy :: "environment \<Rightarrow> string \<Rightarrow> bool" where
  "env_truthy env name = (case env name of None \<Rightarrow> False | Some v \<Rightarrow> v \<noteq> [])"

text \<open>\<^verbatim>\<open>os.environ.get(name, default)\<close>\<close>

definition env_get_default :: "environment \<Rightarrow> string \<Rightarrow> string \<Rightarrow> string" where
  "env_get_default env name dflt = (case env name of None \<Rightarrow> dflt | Some v \<Rightarrow> v)"

text \<open>
  The instance state of class \<^verbatim>\<open>Coveralls\<close>: \<^verbatim>\<open>self._data\<close>, \<^verbatim>\<open>self._token_required\<close>
  and \<^verbatim>\<open>self.config\<close>.
\<close>

record coveralls =
  data :: "dict option"
  token_required :: bool
  config :: dict

type_synonym ci_info = "string \<times> string option \<times> string option"

definition load_config_from_appveyor :: "environment \<Rightarrow> ci_info" where
  "load_config_from_appveyor env =
     (let pr = env ''APPVEYOR_PULL_REQUEST_NUMBER''
      in (''appveyor'', env ''APPVEYOR_BUILD_ID'', pr))"

definition load_config_from_buildkite :: "environment \<Rightarrow> ci_info" where
  "load_config_from_buildkite env = (''buildkite'', env ''BUILDKITE_JOB_ID'', None)"

text \<open>
  \<^verbatim>\<open>os.environ.get('CI_PULL_REQUEST', '').split('/')[-1] or None\<close>. The index \<open>-1\<close> never
  fails, since \<open>split_on\<close> returns at least one segment.
\<close>

definition load_config_from_circle :: "environment \<Rightarrow> ci_info" where
  "load_config_from_circle env =
     (let seg = last (split_on (CHR ''/'') (env_get_default env ''CI_PULL_REQUEST'' []));
          pr = (if seg \<noteq> [] then Some seg else None)
      in (''circle-ci'', env ''CIRCLE_BUILD_NUM'', pr))"

definition load_config_from_travis :: "environment \<Rightarrow> ci_info" where
  "load_config_from_travis env = (''travis-ci'', env ''TRAVIS_JOB_ID'', None)"

definition load_config_from_unknown :: ci_info where
  "load_config_from_unknown = (''coveralls-python'', None, None)"

text \<open>Returns the triple and the instance, whose token requirement CircleCI and Travis lift.\<close>

definition load_config_from_ci_environment ::
    "environment \<Rightarrow> coveralls \<Rightarrow> ci_info \<times> coveralls" where
  "load_config_from_ci_environment env self =
     (if env_truthy env ''APPVEYOR'' then (load_config_from_appveyor env, self)
      else if env_truthy env ''BUILDKITE'' then (load_config_from_buildkite env, self)
      else if env_truthy env ''CIRCLECI''
        then (load_config_from_circle env, self\<lparr>token_required := False\<rparr>)
      else if env_truthy env ''TRAVIS''
        then (load_config_from_travis env, self\<lparr>token_required := False\<rparr>)
      else (load_config_from_unknown, self))"

definition load_config_from_environment :: "environment \<Rightarrow> coveralls \<Rightarrow> coveralls" where
  "load_config_from_environment env self =
     (let self1 = (case env ''COVERALLS_REPO_TOKEN'' of
                     None \<Rightarrow> self
                   | Some repo_token \<Rightarrow>
                       if repo_token \<noteq> []
                       then self\<lparr>config := dict_set ''repo_token'' (PStr repo_token) (config self)\<rparr>
                       else self)
      in if lower (env_get_default env ''COVERALLS_PARALLEL'' []) = ''true''
         then self1\<lparr>config := dict_set ''parallel'' (PBool True) (config self1)\<rparr>
         else self1)"

text \<open>What the run leaves behind: log records (level, template, arguments) and requests.\<close>

datatype level = DEBUG | WARNING | ERROR

datatype log_arg = Val pyval | Joined "string list"

datatype event =
    Log level string "log_arg list"
  | LogException exn
  | HttpPost string string

definition config_filename :: string where
  "config_filename = ''.coveralls.yml''"

definition no_token_message :: string where
  "no_token_message =
     ''Not on Travis or CircleCI. You have to provide either repo_token ''
     @ ''in {} or set the COVERALLS_REPO_TOKEN env var.''"

definition ensure_token :: "coveralls \<Rightarrow> exn + unit" where
  "ensure_token self =
     (if (case map_of (config self) ''repo_token'' of None \<Rightarrow> False | Some v \<Rightarrow> truthy v)
         \<or> \<not> token_required self
      then Inr ()
      else Inl (CoverallsException no_token_message [AStr config_filename]))"

text \<open>
  What \<^verbatim>\<open>load_config_from_file\<close> finds in the working directory: no readable file
  (\<^verbatim>\<open>open\<close> raises \<^verbatim>\<open>OSError\<close>), a file but no PyYAML (\<^verbatim>\<open>import yaml\<close> raises
  \<^verbatim>\<open>ImportError\<close>), a file that \<^verbatim>\<open>yaml.safe_load\<close> parses to some Python value (a mapping
  for a key-value document, \<^verbatim>\<open>None\<close> for an empty file or one that holds only comments, a
  list or a scalar for other documents), or a file on which the parser raises.
\<close>

datatype config_source = NoFile | NoYaml | Parsed pyval | Unparsable exn

text \<open>
  \<^verbatim>\<open>load_config_from_file()\<close> returns the parsed value as it is; only the two caught
  failures end in the empty dictionary.
\<close>

definition load_config_from_file :: "config_source \<Rightarrow> (exn + pyval) \<times> event list" where
  "load_config_from_file config_file =
     (case config_file of
        Parsed v \<Rightarrow> (Inr v, [])
      | Unparsable e \<Rightarrow> (Inl e, [])
      | NoYaml \<Rightarrow>
          (Inr (PDict []),
           [Log WARNING ''PyYAML is not installed, skipping %s.'' [Val (PStr config_filename)]])
      | NoFile \<Rightarrow>
          (Inr (PDict []),
           [Log DEBUG ''Missing %s file. Using only env variables.''
              [Val (PStr config_filename)]]))"

text \<open>
  \<^verbatim>\<open>Coveralls.__init__(token_required, **kwargs)\<close>. The call \<^verbatim>\<open>self.config.update(kwargs)\<close>
  needs the loaded value to be a dictionary: no other value of the model has an
  \<^verbatim>\<open>update\<close> attribute, so the call raises \<open>AttributeError\<close> on it, before the
  environment is read and before \<^verbatim>\<open>ensure_token\<close> runs.
\<close>

definition init ::
    "environment \<Rightarrow> config_source \<Rightarrow> bool \<Rightarrow> dict \<Rightarrow> (exn + coveralls) \<times> event list" where
  "init env config_file token_req kwargs =
     (case load_config_from_file config_file of
        (Inl e, logs) \<Rightarrow> (Inl e, logs)
      | (Inr loaded, logs) \<Rightarrow>
     (case loaded of
        PDict file_config \<Rightarrow>
          (let self0 = \<lparr>data = None, token_required = token_req,
                        config = dict_update file_config kwargs\<rparr>;
               self1 = load_config_from_environment env self0;
               ((name, job, pr), self2) = load_config_from_ci_environment env self1;
               cfg3 = dict_set ''service_name''
                        (dict_get_default (config self2) ''service_name'' (PStr name))
                        (config self2);
               cfg4 = (case job of
                         None \<Rightarrow> cfg3
                       | Some j \<Rightarrow>
                           if j \<noteq> [] then dict_set ''service_job_id'' (PStr j) cfg3 else cfg3);
               cfg5 = (case pr of
                         None \<Rightarrow> cfg4
                       | Some p \<Rightarrow>
                           if p \<noteq> [] then dict_set ''service_pull_request'' (PStr p) cfg4
                           else cfg4);
               self5 = self2\<lparr>config := cfg5\<rparr>
           in case ensure_token self5 of
                Inl e \<Rightarrow> (Inl e, logs)
              | Inr _ \<Rightarrow> (Inr self5, logs))
      | _ \<Rightarrow> (Inl AttributeError, logs)))"

section \<open>More string operations\<close>

text \<open>
  White space of a Python text string, below code point 256: \<open>\t \n \v \f \r\<close>, the
  separators \<open>0x1C\<close> to \<open>0x1F\<close>, the space, \<open>0x85\<close> and \<open>0xA0\<close>.
\<close>

definition is_space :: "char \<Rightarrow> bool" where
  "is_space c =
     (let n = (of_char c :: nat)
      in (9 \<le> n \<and> n \<le> 13) \<or> (28 \<le> n \<and> n \<le> 32) \<or> n = 133 \<or> n = 160)"

text \<open>\<^verbatim>\<open>s.strip()\<close>\<close>

definition strip :: "string \<Rightarrow> string" where
  "strip s = rev (dropWhile is_space (rev (dropWhile is_space s)))"

text \<open>\<^verbatim>\<open>s.split()\<close>: the maximal runs of characters that are not white space.\<close>

fun split_ws_from :: "string \<Rightarrow> string \<Rightarrow> string list" where
  "split_ws_from cur [] = (if cur = [] then [] else [rev cur])"
| "split_ws_from cur (c # cs) =
     (if is_space c
      then (if cur = [] then split_ws_from [] cs else rev cur # split_ws_from [] cs)
      else split_ws_from (c # cur) cs)"

definition split_ws :: "string \<Rightarrow> string list" where
  "split_ws s = split_ws_from [] s"

text \<open>
  \<^verbatim>\<open>s.splitlines()\<close>: a line ends at \<open>\n\<close>, \<open>\r\<close>, \<open>\r\n\<close>, \<open>\v\<close>, \<open>\f\<close>, \<open>0x1C\<close>,
  \<open>0x1D\<close>, \<open>0x1E\<close> or \<open>0x85\<close>; there is no empty last line.
\<close>

definition is_linebreak :: "char \<Rightarrow> bool" where
  "is_linebreak c =
     (let n = (of_char c :: nat) in (10 \<le> n \<and> n \<le> 13) \<or> (28 \<le> n \<and> n \<le> 30) \<or> n = 133)"

fun splitlines_from :: "string \<Rightarrow> string \<Rightarrow> string list" where
  "splitlines_from cur [] = (if cur = [] then [] else [rev cur])"
| "splitlines_from cur (c # cs) =
     (if c = CHR 0x0D
      then (case cs of
              [] \<Rightarrow> [rev cur]
            | d # rest \<Rightarrow>
                if d = CHR 0x0A then rev cur # splitlines_from [] rest
                else rev cur # splitlines_from [] (d # rest))
      else if is_linebreak c then rev cur # splitlines_from [] cs
      else splitlines_from (c # cur) cs)"

definition splitlines :: "string \<Rightarrow> string list" where
  "splitlines s = splitlines_from [] s"

text \<open>\<^verbatim>\<open>s.startswith(p)\<close> and the substring test \<^verbatim>\<open>sub in s\<close>.\<close>

fun starts_with :: "string \<Rightarrow> string \<Rightarrow> bool" where
  "starts_with [] s = True"
| "starts_with (p # ps) [] = False"
| "starts_with (p # ps) (c # cs) = (p = c \<and> starts_with ps cs)"

fun contains :: "string \<Rightarrow> string \<Rightarrow> bool" where
  "contains sub [] = (sub = [])"
| "contains sub (c # cs) = (starts_with sub (c # cs) \<or> contains sub cs)"

text \<open>\<^verbatim>\<open>sep.join(xs)\<close>\<close>

fun join :: "string \<Rightarrow> string list \<Rightarrow> string" where
  "join sep [] = []"
| "join sep [x] = x"
| "join sep (x # y # ys) = x @ sep @ join sep (y # ys)"

text \<open>\<^verbatim>\<open>str(n)\<close> for an integer.\<close>

fun show_nat :: "nat \<Rightarrow> string" where
  "show_nat n =
     (if n < 10 then [''0123456789'' ! n]
      else show_nat (n div 10) @ [''0123456789'' ! (n mod 10)])"

definition show_int :: "int \<Rightarrow> string" where
  "show_int i = (if i < 0 then CHR ''-'' # show_nat (nat (- i)) else show_nat (nat i))"

section \<open>Operations on Python values\<close>

text \<open>\<^verbatim>\<open>key in x\<close> for a text key.\<close>

fun py_contains :: "string \<Rightarrow> pyval \<Rightarrow> exn + bool" where
  "py_contains k (PDict d) = Inr (k \<in> set (map fst d))"
| "py_contains k (PList xs) = Inr (PStr k \<in> set xs)"
| "py_contains k (PStr s) = Inr (contains k s)"
| "py_contains k _ = Inl TypeError"

text \<open>\<^verbatim>\<open>x[key]\<close> for a text key: only a dictionary can be indexed by text.\<close>

fun py_getitem :: "pyval \<Rightarrow> string \<Rightarrow> exn + pyval" where
  "py_getitem (PDict d) k = (case map_of d k of None \<Rightarrow> Inl (KeyError k) | Some v \<Rightarrow> Inr v)"
| "py_getitem _ k = Inl TypeError"

text \<open>Iteration: the items of a list, the characters of a text, the keys of a dictionary.\<close>

fun py_iter :: "pyval \<Rightarrow> exn + pyval list" where
  "py_iter (PList xs) = Inr xs"
| "py_iter (PStr s) = Inr (map (\<lambda>c. PStr [c]) s)"
| "py_iter (PDict d) = Inr (map (\<lambda>kv. PStr (fst kv)) d)"
| "py_iter _ = Inl TypeError"

text \<open>\<^verbatim>\<open>len(x)\<close>\<close>

fun py_len :: "pyval \<Rightarrow> exn + nat" where
  "py_len (PList xs) = Inr (length xs)"
| "py_len (PStr s) = Inr (length s)"
| "py_len (PDict d) = Inr (length d)"
| "py_len _ = Inl TypeError"

text \<open>
  \<^verbatim>\<open>sum(filter(None, x))\<close>: the truthy items are added to 0; integers and booleans can
  be added, a truthy item of another type is a \<open>TypeError\<close>.
\<close>

fun sum_truthy :: "pyval list \<Rightarrow> int \<Rightarrow> exn + int" where
  "sum_truthy [] acc = Inr acc"
| "sum_truthy (x # xs) acc =
     (if \<not> truthy x then sum_truthy xs acc
      else (case x of
              PInt n \<Rightarrow> sum_truthy xs (acc + n)
            | PBool b \<Rightarrow> sum_truthy xs (acc + 1)
            | _ \<Rightarrow> Inl TypeError))"

definition py_sum_truthy :: "pyval \<Rightarrow> exn + int" where
  "py_sum_truthy x = (case py_iter x of Inl e \<Rightarrow> Inl e | Inr items \<Rightarrow> sum_truthy items 0)"

section \<open>The outside world\<close>

text \<open>
  What the module obtains from its collaborators is a parameter of the model: the
  process environment, the outcome of a subprocess (exit code, captured stdout and
  stderr, or the exception that starting it raises), the two byte decoders that
  \<^verbatim>\<open>run_command\<close> tries, the file records of the coverage engine and reporter for a
  given \<^verbatim>\<open>config_file\<close> setting, the serializer \<^verbatim>\<open>json.dumps\<close>, and the answer of the
  remote service to a posted report.
\<close>

record response =
  status_code :: int
  resp_text :: string
  resp_json :: "pyval option"

record world =
  os_environ :: environment
  popen :: "string list \<Rightarrow> exn + (int \<times> string \<times> string)"
  decode_default :: "string \<Rightarrow> string option"
  decode_utf8 :: "string \<Rightarrow> string option"
  coverage_report :: "pyval \<Rightarrow> exn + pyval list"
  dumps :: "pyval \<Rightarrow> exn + string"
  requests_post :: "string \<Rightarrow> string \<Rightarrow> exn + response"

section \<open>The version-control queries\<close>

definition command_failed_message :: string where
  "command_failed_message =
     ''command return code {}, STDOUT: '' @ [CHR 0x22] @ ''{}'' @ [CHR 0x22, CHR 0x0A]
     @ ''STDERR: '' @ [CHR 0x22] @ ''{}'' @ [CHR 0x22]"

definition run_command :: "world \<Rightarrow> string list \<Rightarrow> exn + string" where
  "run_command w args =
     (case popen w args of
        Inl e \<Rightarrow> Inl e
      | Inr (returncode, stdout, stderr) \<Rightarrow>
          if returncode \<noteq> 0
          then Inl (CoverallsException command_failed_message
                 [AInt returncode, ABytes stdout, ABytes stderr])
          else (case decode_default w stdout of
                  Some s \<Rightarrow> Inr s
                | None \<Rightarrow>
                    (case decode_utf8 w stdout of
                       Some s \<Rightarrow> Inr s
                     | None \<Rightarrow> Inl (UnicodeDecodeError ''utf-8''))))"

definition gitlog :: "world \<Rightarrow> string \<Rightarrow> exn + string" where
  "gitlog w fmt =
     run_command w [''git'', ''--no-pager'', ''log'', ''-1'', ''--pretty=format:'' @ fmt]"

text \<open>\<^verbatim>\<open>os.environ.get(name) or rest\<close>\<close>

definition env_or :: "environment \<Rightarrow> string \<Rightarrow> string \<Rightarrow> string" where
  "env_or env name rest = (case env name of Some (c # cs) \<Rightarrow> c # cs | _ \<Rightarrow> rest)"

text \<open>The list comprehension over the lines of \<^verbatim>\<open>git remote -v\<close>.\<close>

fun remotes_of :: "string list \<Rightarrow> exn + pyval list" where
  "remotes_of [] = Inr []"
| "remotes_of (line # lines) =
     (if contains ''(fetch)'' line
      then (case split_ws line of
              name # url # _ \<Rightarrow>
                (case remotes_of lines of
                   Inl e \<Rightarrow> Inl e
                 | Inr rs \<Rightarrow> Inr (PDict [(''name'', PStr name), (''url'', PStr url)] # rs))
            | _ \<Rightarrow> Inl IndexError)
      else remotes_of lines)"

definition git_info :: "world \<Rightarrow> exn + dict" where
  "git_info w =
     (case run_command w [''git'', ''rev-parse'', ''--abbrev-ref'', ''HEAD''] of
        Inl e \<Rightarrow> Inl e
      | Inr rev_out \<Rightarrow>
     (case run_command w [''git'', ''remote'', ''-v''] of
        Inl e \<Rightarrow> Inl e
      | Inr remotes_out \<Rightarrow>
     (case gitlog w ''%H'' of Inl e \<Rightarrow> Inl e | Inr commit_id \<Rightarrow>
     (case gitlog w ''%aN'' of Inl e \<Rightarrow> Inl e | Inr author_name \<Rightarrow>
     (case gitlog w ''%ae'' of Inl e \<Rightarrow> Inl e | Inr author_email \<Rightarrow>
     (case gitlog w ''%cN'' of Inl e \<Rightarrow> Inl e | Inr committer_name \<Rightarrow>
     (case gitlog w ''%ce'' of Inl e \<Rightarrow> Inl e | Inr committer_email \<Rightarrow>
     (case gitlog w ''%s'' of Inl e \<Rightarrow> Inl e | Inr message \<Rightarrow>
       (let env = os_environ w;
            branch = env_or env ''CIRCLE_BRANCH''
                      (env_or env ''APPVEYOR_REPO_BRANCH''
                        (env_or env ''BUILDKITE_BRANCH''
                          (env_or env ''CI_BRANCH''
                            (env_get_default env ''TRAVIS_BRANCH'' (strip rev_out)))))
        in case remotes_of (splitlines remotes_out) of
             Inl e \<Rightarrow> Inl e
           | Inr remotes \<Rightarrow>
               Inr [(''git'', PDict
                     [(''head'', PDict
                        [(''id'', PStr commit_id),
                         (''author_name'', PStr author_name),
                         (''author_email'', PStr author_email),
                         (''committer_name'', PStr committer_name),
                         (''committer_email'', PStr committer_email),
                         (''message'', PStr message)]),
                      (''branch'', PStr branch),
                      (''remotes'', PList remotes)])])))))))))"

section \<open>Building the report\<close>

definition get_coverage :: "world \<Rightarrow> coveralls \<Rightarrow> exn + pyval list" where
  "get_coverage w self =
     (let config_file = dict_get_default (config self) ''config_file'' (PBool True)
      in coverage_report w config_file)"

definition no_data_message :: string where
  "no_data_message =
     ''No data to be merged; does the json file contain ''
     @ [CHR 0x22] @ ''source_files'' @ [CHR 0x22] @ '' data?''"

text \<open>
  \<^verbatim>\<open>self._data['source_files'].extend(extra['source_files'])\<close>: the attribute \<^verbatim>\<open>extend\<close>
  is looked up first (only a list has it), then the argument is evaluated, then its
  items are appended.
\<close>

definition extend_source_files :: "dict \<Rightarrow> pyval \<Rightarrow> exn + pyval" where
  "extend_source_files d extra =
     (case map_of d ''source_files'' of
        None \<Rightarrow> Inl (KeyError ''source_files'')
      | Some (PList old) \<Rightarrow>
          (case py_getitem extra ''source_files'' of
             Inl e \<Rightarrow> Inl e
           | Inr v \<Rightarrow>
               (case py_iter v of
                  Inl e \<Rightarrow> Inl e
                | Inr items \<Rightarrow> Inr (PList (old @ items))))
      | Some _ \<Rightarrow> Inl AttributeError)"

text \<open>
  \<^verbatim>\<open>create_data(extra)\<close> returns the result or the exception, the instance and the log
  records. \<^verbatim>\<open>self._data\<close> is assigned as soon as the coverage is read, before the git
  queries run. When the configuration has a \<^verbatim>\<open>source_files\<close> entry of its own, the report
  shares that list object with \<^verbatim>\<open>self.config\<close>, and \<^verbatim>\<open>extend\<close> changes both.
\<close>

definition create_data ::
    "world \<Rightarrow> coveralls \<Rightarrow> pyval \<Rightarrow> (exn + dict) \<times> coveralls \<times> event list" where
  "create_data w self extra =
     (case data self of
        Some (kv # d) \<Rightarrow> (Inr (kv # d), self, [])
      | _ \<Rightarrow>
     (case get_coverage w self of
        Inl e \<Rightarrow> (Inl e, self, [])
      | Inr files \<Rightarrow>
     (let d1 = [(''source_files'', PList files)];
          self1 = self\<lparr>data := Some d1\<rparr>
      in case git_info w of
           Inl e \<Rightarrow> (Inl e, self1, [])
         | Inr git \<Rightarrow>
     (let d3 = dict_update (dict_update d1 git) (config self);
          self3 = self\<lparr>data := Some d3\<rparr>
      in if truthy extra
         then (case py_contains ''source_files'' extra of
                 Inl e \<Rightarrow> (Inl e, self3, [])
               | Inr True \<Rightarrow>
                   (case extend_source_files d3 extra of
                      Inl e \<Rightarrow> (Inl e, self3, [])
                    | Inr merged \<Rightarrow>
                        (let d4 = dict_set ''source_files'' merged d3;
                             cfg4 = (if ''source_files'' \<in> set (map fst (config self))
                                     then dict_set ''source_files'' merged (config self)
                                     else config self)
                         in (Inr d4, self\<lparr>data := Some d4, config := cfg4\<rparr>, [])))
               | Inr False \<Rightarrow> (Inr d3, self3, [Log WARNING no_data_message []]))
         else (Inr d3, self3, [])))))"

text \<open>
  \<^verbatim>\<open>merge(path)\<close>: \<open>loaded\<close> is the outcome of opening the file and parsing it with
  \<^verbatim>\<open>json.load\<close>.
\<close>

definition merge ::
    "world \<Rightarrow> coveralls \<Rightarrow> exn + pyval \<Rightarrow> (exn + unit) \<times> coveralls \<times> event list" where
  "merge w self loaded =
     (case loaded of
        Inl e \<Rightarrow> (Inl e, self, [])
      | Inr extra \<Rightarrow>
          (case create_data w self extra of
             (Inl e, self', logs) \<Rightarrow> (Inl e, self', logs)
           | (Inr _, self', logs) \<Rightarrow> (Inr (), self', logs)))"

section \<open>Serializing and logging the report\<close>

text \<open>
  \<^verbatim>\<open>re.sub(r'"repo_token": "(.+?)"', '"repo_token": "[secure]"', json_string)\<close>. The
  pattern is a fixed text, then one or more characters other than a line feed, as few
  as possible, then a double quote.
\<close>

definition pattern_prefix :: string where
  "pattern_prefix = [CHR 0x22] @ ''repo_token'' @ [CHR 0x22] @ '': '' @ [CHR 0x22]"

definition replacement :: string where
  "replacement = pattern_prefix @ ''[secure]'' @ [CHR 0x22]"

text \<open>The shortest run without a line feed that a double quote ends, and what follows it.\<close>

fun until_quote :: "string \<Rightarrow> (string \<times> string) option" where
  "until_quote [] = None"
| "until_quote (c # cs) =
     (if c = CHR 0x22 then Some ([], cs)
      else if c = CHR 0x0A then None
      else (case until_quote cs of None \<Rightarrow> None | Some (g, rest) \<Rightarrow> Some (c # g, rest)))"

text \<open>The group \<^verbatim>\<open>(.+?)\<close> and the closing quote: the first character is in the group.\<close>

definition lazy_group :: "string \<Rightarrow> (string \<times> string) option" where
  "lazy_group s =
     (case s of
        [] \<Rightarrow> None
      | c # cs \<Rightarrow>
          if c = CHR 0x0A then None
          else (case until_quote cs of None \<Rightarrow> None | Some (g, rest) \<Rightarrow> Some (c # g, rest)))"

text \<open>A match that starts at the head of the text: the group and the text after the match.\<close>

definition match_at :: "string \<Rightarrow> (string \<times> string) option" where
  "match_at s =
     (if starts_with pattern_prefix s then lazy_group (drop (length pattern_prefix) s)
      else None)"

lemma until_quote_shorter: "until_quote s = Some (g, rest) \<Longrightarrow> length rest < length s"
  by (induction s arbitrary: g) (auto split: if_splits option.splits)

lemma lazy_group_shorter: "lazy_group s = Some (g, rest) \<Longrightarrow> length rest < length s"
  by (auto simp: lazy_group_def split: if_splits list.splits option.splits
      dest!: until_quote_shorter)

lemma match_at_shorter:
  assumes "match_at s = Some (g, rest)"
  shows "length rest < length s"
proof -
  from assms have "lazy_group (drop (length pattern_prefix) s) = Some (g, rest)"
    by (simp add: match_at_def split: if_splits)
  then have "length rest < length (drop (length pattern_prefix) s)"
    by (rule lazy_group_shorter)
  then show ?thesis by simp
qed

text \<open>The scan from left to right: every match is replaced, the other characters stay.\<close>

function re_sub :: "string \<Rightarrow> string" where
  "re_sub [] = []"
| "re_sub (c # cs) =
     (case match_at (c # cs) of
        Some (g, rest) \<Rightarrow> replacement @ re_sub rest
      | None \<Rightarrow> c # re_sub cs)"
  by pat_completeness auto
termination
  by (relation "measure length") (auto dest: match_at_shorter)

text \<open>
  \<^verbatim>\<open>json.dumps\<close> of Python 3 with its default arguments, on values that hold text: items
  are separated by a comma and a space, a key from its value by a colon and a space, and
  every character outside the printable ASCII range, the double quote and the backslash
  are escaped. It is one possible value of the field \<open>dumps\<close> of the world; a
  serializer that meets undecodable bytes (Python 2) is another.
\<close>

definition hex_digit :: "nat \<Rightarrow> char" where
  "hex_digit n = ''0123456789abcdef'' ! n"

definition escape_char :: "char \<Rightarrow> string" where
  "escape_char c =
     (let n = (of_char c :: nat)
      in if c = CHR 0x22 then [CHR 0x5C, CHR 0x22]
         else if c = CHR 0x5C then [CHR 0x5C, CHR 0x5C]
         else if c = CHR 0x0A then [CHR 0x5C, CHR ''n'']
         else if c = CHR 0x0D then [CHR 0x5C, CHR ''r'']
         else if c = CHR 0x09 then [CHR 0x5C, CHR ''t'']
         else if c = CHR 0x08 then [CHR 0x5C, CHR ''b'']
         else if c = CHR 0x0C then [CHR 0x5C, CHR ''f'']
         else if 32 \<le> n \<and> n \<le> 126 then [c]
         else [CHR 0x5C, CHR ''u'', CHR ''0'', CHR ''0'',
               hex_digit (n div 16), hex_digit (n mod 16)])"

definition json_text :: "string \<Rightarrow> string" where
  "json_text s = [CHR 0x22] @ concat (map escape_char s) @ [CHR 0x22]"

fun json_dumps :: "pyval \<Rightarrow> string" where
  "json_dumps PNone = ''null''"
| "json_dumps (PBool b) = (if b then ''true'' else ''false'')"
| "json_dumps (PInt i) = show_int i"
| "json_dumps (PStr s) = json_text s"
| "json_dumps (PList xs) = ''['' @ join '', '' (map json_dumps xs) @ '']''"
| "json_dumps (PDict d) =
     ''{'' @ join '', '' (map (\<lambda>kv. json_text (fst kv) @ '': '' @ json_dumps (snd kv)) d)
     @ ''}''"

text \<open>
  \<^verbatim>\<open>debug_bad_encoding(data)\<close>. The set \<^verbatim>\<open>at_fault_files\<close> is the list of its members in
  the order in which they were added; only a hashable object can be added, and only
  text can be joined. The order in which \<^verbatim>\<open>join\<close> meets the members of a set is not
  fixed by Python, so the log record keeps the names apart.
\<close>

fun hashable :: "pyval \<Rightarrow> bool" where
  "hashable (PList xs) = False"
| "hashable (PDict d) = False"
| "hashable _ = True"

fun scan_values ::
    "(pyval \<Rightarrow> exn + string) \<Rightarrow> dict \<Rightarrow> pyval list \<Rightarrow> pyval list \<Rightarrow> exn + pyval list" where
  "scan_values enc source_file_data [] at_fault = Inr at_fault"
| "scan_values enc source_file_data (v # vs) at_fault =
     (case enc v of
        Inr _ \<Rightarrow> scan_values enc source_file_data vs at_fault
      | Inl (UnicodeDecodeError m) \<Rightarrow>
          (case map_of source_file_data ''name'' of
             None \<Rightarrow> Inl (KeyError ''name'')
           | Some name \<Rightarrow>
               if hashable name
               then scan_values enc source_file_data vs (List.insert name at_fault)
               else Inl TypeError)
      | Inl e \<Rightarrow> Inl e)"

fun scan_files :: "(pyval \<Rightarrow> exn + string) \<Rightarrow> pyval list \<Rightarrow> pyval list \<Rightarrow> exn + pyval list" where
  "scan_files enc [] at_fault = Inr at_fault"
| "scan_files enc (f # fs) at_fault =
     (case f of
        PDict source_file_data \<Rightarrow>
          (case scan_values enc source_file_data (map snd source_file_data) at_fault of
             Inl e \<Rightarrow> Inl e
           | Inr at_fault' \<Rightarrow> scan_files enc fs at_fault')
      | _ \<Rightarrow> Inl AttributeError)"

fun texts_of :: "pyval list \<Rightarrow> string list option" where
  "texts_of [] = Some []"
| "texts_of (x # xs) =
     (case x of
        PStr s \<Rightarrow> (case texts_of xs of None \<Rightarrow> None | Some ss \<Rightarrow> Some (s # ss))
      | _ \<Rightarrow> None)"

definition hint_message :: string where
  "hint_message =
     ''HINT: Following files cannot be decoded properly into ''
     @ ''unicode. Check their content: %s''"

definition debug_bad_encoding :: "world \<Rightarrow> dict \<Rightarrow> (exn + unit) \<times> event list" where
  "debug_bad_encoding w d =
     (case py_getitem (PDict d) ''source_files'' of
        Inl e \<Rightarrow> (Inl e, [])
      | Inr source_files \<Rightarrow>
     (case py_iter source_files of
        Inl e \<Rightarrow> (Inl e, [])
      | Inr files \<Rightarrow>
     (case scan_files (dumps w) files [] of
        Inl e \<Rightarrow> (Inl e, [])
      | Inr at_fault_files \<Rightarrow>
          if at_fault_files \<noteq> []
          then (case texts_of at_fault_files of
                  None \<Rightarrow> (Inl TypeError, [])
                | Some names \<Rightarrow> (Inr (), [Log ERROR hint_message [Joined names]]))
          else (Inr (), []))))"

text \<open>
  The loop of \<^verbatim>\<open>create_report\<close> that logs each file: the arguments of \<^verbatim>\<open>log.debug\<close> are
  evaluated whatever the log level is, so a record without \<^verbatim>\<open>name\<close> or \<^verbatim>\<open>coverage\<close>
  raises here. The records logged before stay logged.
\<close>

fun log_source_files :: "pyval list \<Rightarrow> (exn + unit) \<times> event list" where
  "log_source_files [] = (Inr (), [])"
| "log_source_files (source_file # rest) =
     (case py_getitem source_file ''name'' of
        Inl e \<Rightarrow> (Inl e, [])
      | Inr name \<Rightarrow>
     (case py_getitem source_file ''coverage'' of
        Inl e \<Rightarrow> (Inl e, [])
      | Inr coverage \<Rightarrow>
     (case py_sum_truthy coverage of
        Inl e \<Rightarrow> (Inl e, [])
      | Inr hits \<Rightarrow>
     (case py_len coverage of
        Inl e \<Rightarrow> (Inl e, [])
      | Inr n \<Rightarrow>
          (case log_source_files rest of
             (r, logs) \<Rightarrow>
               (r, Log DEBUG ''%s - %s/%s'' [Val name, Val (PInt hits), Val (PInt (int n))]
                    # logs))))))"

definition reporting_message :: string where
  "reporting_message = ''=='' @ [CHR 0x0A] @ ''Reporting %s files'' @ [CHR 0x0A] @ ''=='' @ [CHR 0x0A]"

definition log_report :: "dict \<Rightarrow> (exn + unit) \<times> event list" where
  "log_report d =
     (case py_getitem (PDict d) ''source_files'' of
        Inl e \<Rightarrow> (Inl e, [])
      | Inr source_files \<Rightarrow>
     (case py_len source_files of
        Inl e \<Rightarrow> (Inl e, [])
      | Inr n \<Rightarrow>
     (case py_iter source_files of
        Inl e \<Rightarrow> (Inl e, [Log DEBUG reporting_message [Val (PInt (int n))]])
      | Inr files \<Rightarrow>
          (case log_source_files files of
             (r, logs) \<Rightarrow> (r, Log DEBUG reporting_message [Val (PInt (int n))] # logs)))))"

definition create_report ::
    "world \<Rightarrow> coveralls \<Rightarrow> (exn + string) \<times> coveralls \<times> event list" where
  "create_report w self =
     (case create_data w self PNone of
        (Inl e, self1, logs1) \<Rightarrow> (Inl e, self1, logs1)
      | (Inr d, self1, logs1) \<Rightarrow>
     (case dumps w (PDict d) of
        Inl (UnicodeDecodeError m) \<Rightarrow>
          (let logs2 = logs1 @ [Log ERROR ''ERROR: While preparing JSON:'' [],
                                LogException (UnicodeDecodeError m)]
           in case debug_bad_encoding w d of
                (Inl e, logs3) \<Rightarrow> (Inl e, self1, logs2 @ logs3)
              | (Inr _, logs3) \<Rightarrow> (Inl (UnicodeDecodeError m), self1, logs2 @ logs3))
      | Inl e \<Rightarrow> (Inl e, self1, logs1)
      | Inr json_string \<Rightarrow>
          (let log_string = re_sub json_string;
               logs2 = logs1 @ [Log DEBUG log_string []]
           in case log_report d of
                (Inl e, logs3) \<Rightarrow> (Inl e, self1, logs2 @ logs3)
              | (Inr _, logs3) \<Rightarrow> (Inr json_string, self1, logs2 @ logs3))))"

section \<open>Running\<close>

definition api_endpoint :: string where
  "api_endpoint = ''https://coveralls.io/api/v1/jobs''"

text \<open>
  \<^verbatim>\<open>wear(dry_run)\<close>. A request that was sent is the event \<open>HttpPost\<close>, whatever came back.
\<close>

definition wear ::
    "world \<Rightarrow> coveralls \<Rightarrow> bool \<Rightarrow> (exn + pyval) \<times> coveralls \<times> event list" where
  "wear w self dry_run =
     (case create_report w self of
        (Inl (CoverageException e), self1, logs1) \<Rightarrow>
          (Inr (PDict [(''message'', PStr (''Failure to gather coverage: '' @ e))]),
           self1, logs1)
      | (Inl e, self1, logs1) \<Rightarrow> (Inl e, self1, logs1)
      | (Inr json_string, self1, logs1) \<Rightarrow>
          if dry_run then (Inr (PDict []), self1, logs1)
          else (case requests_post w api_endpoint json_string of
                  Inl e \<Rightarrow> (Inl e, self1, logs1 @ [HttpPost api_endpoint json_string])
                | Inr resp \<Rightarrow>
                    (case resp_json resp of
                       Some v \<Rightarrow> (Inr v, self1, logs1 @ [HttpPost api_endpoint json_string])
                     | None \<Rightarrow>
                         (Inr (PDict [(''message'',
                             PStr (''Failure to submit data. Response ['' @
                                   show_int (status_code resp) @ '']: '' @ resp_text resp))]),
                          self1, logs1 @ [HttpPost api_endpoint json_string]))))"

section \<open>A small run\<close>

text \<open>
  One measured file \<^verbatim>\<open>a.py\<close> with one executed line, a git checkout on branch
  \<^verbatim>\<open>main\<close> with one remote, an empty environment, the serializer of Python 3 and a
  service that answers with an empty JSON object.
\<close>

definition example_file :: pyval where
  "example_file =
     PDict [(''name'', PStr ''a.py''), (''source'', PStr (''x = 1'' @ [CHR 0x0A])),
            (''coverage'', PList [PInt 1])]"

definition example_world :: world where
  "example_world =
     \<lparr>os_environ = Map.empty,
      popen = (\<lambda>args. if args = [''git'', ''remote'', ''-v'']
                       then Inr (0, ''origin x (fetch)'', [])
                       else Inr (0, ''main'', [])),
      decode_default = Some,
      decode_utf8 = Some,
      coverage_report = (\<lambda>config_file. Inr [example_file]),
      dumps = (\<lambda>v. Inr (json_dumps v)),
      requests_post = (\<lambda>url body.
         Inr \<lparr>status_code = 200, resp_text = ''{}'', resp_json = Some (PDict [])\<rparr>)\<rparr>"

definition example_instance :: coveralls where
  "example_instance =
     \<lparr>data = None, token_required = True,
      config = [(''repo_token'', PStr ''abc123''), (''service_name'', PStr ''coveralls-python'')]\<rparr>"

definition example_git :: pyval where
  "example_git =
     PDict [(''head'', PDict
              [(''id'', PStr ''main''), (''author_name'', PStr ''main''),
               (''author_email'', PStr ''main''), (''committer_name'', PStr ''main''),
               (''committer_email'', PStr ''main''), (''message'', PStr ''main'')]),
            (''branch'', PStr ''main''),
            (''remotes'', PList [PDict [(''name'', PStr ''origin''), (''url'', PStr ''x'')]])]"

definition example_report :: dict where
  "example_report =
     [(''source_files'', PList [example_file]), (''git'', example_git),
      (''repo_token'', PStr ''abc123''), (''service_name'', PStr ''coveralls-python'')]"

text \<open>The same run outside a git checkout, and the same run without measurement data.\<close>

definition failing_git_world :: world where
  "failing_git_world =
     example_world\<lparr>popen := (\<lambda>args. if args = [''git'', ''remote'', ''-v'']
                                     then Inr (128, [], ''fatal: not a git repository'')
                                     else Inr (0, ''main'', []))\<rparr>"

definition no_data_world :: world where
  "no_data_world =
     example_world\<lparr>coverage_report := (\<lambda>config_file. Inl (CoverageException ''No data to report.''))\<rparr>"

text \<open>
  A serializer that cannot decode the byte \<open>0xFF\<close>, which no UTF-8 text holds, as the
  serializer of Python 2 cannot; and the run with a second file \<^verbatim>\<open>b.py\<close> whose source
  holds that byte.
\<close>

fun undecodable :: "pyval \<Rightarrow> bool" where
  "undecodable (PStr s) = (CHR 0xFF \<in> set s)"
| "undecodable (PList xs) = list_ex undecodable xs"
| "undecodable (PDict d) = list_ex (\<lambda>kv. CHR 0xFF \<in> set (fst kv) \<or> undecodable (snd kv)) d"
| "undecodable _ = False"

definition strict_dumps :: "pyval \<Rightarrow> exn + string" where
  "strict_dumps v =
     (if undecodable v then Inl (UnicodeDecodeError ''utf8'') else Inr (json_dumps v))"

definition bad_file :: pyval where
  "bad_file =
     PDict [(''name'', PStr ''b.py''), (''source'', PStr [CHR 0xFF]), (''coverage'', PList [])]"

definition bad_world :: world where
  "bad_world =
     example_world\<lparr>coverage_report := (\<lambda>config_file. Inr [example_file, bad_file]),
                   dumps := strict_dumps\<rparr>"

definition bad_report :: dict where
  "bad_report =
     [(''source_files'', PList [example_file, bad_file]), (''git'', example_git),
      (''repo_token'', PStr ''abc123''), (''service_name'', PStr ''coveralls-python'')]"

text \<open>
  The serialized report of the small run, before and after the \<^verbatim>\<open>repo_token\<close> field; and a
  run whose measured file mentions the token in its source.
\<close>

definition example_pre :: string where
  "example_pre =
     ''{'' @ json_text ''source_files'' @ '': '' @ json_dumps (PList [example_file]) @ '', ''
     @ json_text ''git'' @ '': '' @ json_dumps example_git @ '', ''"

definition example_post :: string where
  "example_post =
     '', '' @ json_text ''service_name'' @ '': '' @ json_text ''coveralls-python'' @ ''}''"

definition leak_file :: pyval where
  "leak_file =
     PDict [(''name'', PStr ''conf.py''), (''source'', PStr ''TOKEN = abc123''),
            (''coverage'', PList [PInt 1])]"

definition leak_world :: world where
  "leak_world = example_world\<lparr>coverage_report := (\<lambda>config_file. Inr [leak_file])\<rparr>"

definition leak_report :: dict where
  "leak_report =
     [(''source_files'', PList [leak_file]), (''git'', example_git),
      (''repo_token'', PStr ''abc123''), (''service_name'', PStr ''coveralls-python'')]"

section \<open>Notions of the specification\<close>

text \<open>
  The specification's ordered list of provider detectors: the presence variable, the
  fixed service name, the job-id variable and how the pull request is read.
\<close>

definition spec_providers ::
    "(string \<times> string \<times> string \<times> (environment \<Rightarrow> string option)) list" where
  "spec_providers =
     [(''APPVEYOR'', ''appveyor'', ''APPVEYOR_BUILD_ID'',
         \<lambda>env. env ''APPVEYOR_PULL_REQUEST_NUMBER''),
      (''BUILDKITE'', ''buildkite'', ''BUILDKITE_JOB_ID'', \<lambda>env. None),
      (''CIRCLECI'', ''circle-ci'', ''CIRCLE_BUILD_NUM'',
         \<lambda>env. snd (snd (load_config_from_circle env))),
      (''TRAVIS'', ''travis-ci'', ''TRAVIS_JOB_ID'', \<lambda>env. None)]"

text \<open>The specification's reading of the CircleCI pull request: the last non-empty segment.\<close>

definition spec_last_nonempty_segment :: "string \<Rightarrow> string option" where
  "spec_last_nonempty_segment v =
     (case filter (\<lambda>seg. seg \<noteq> []) (split_on (CHR ''/'') v) of
        [] \<Rightarrow> None
      | seg # segs \<Rightarrow> Some (last (seg # segs)))"

text \<open>A text that equals \<^verbatim>\<open>true\<close> when the case of its letters is ignored.\<close>

definition spec_true_ignoring_case :: "string \<Rightarrow> bool" where
  "spec_true_ignoring_case v =
     (case v of
        [a, b, c, d] \<Rightarrow>
          (a = CHR ''t'' \<or> a = CHR ''T'') \<and> (b = CHR ''r'' \<or> b = CHR ''R'')
          \<and> (c = CHR ''u'' \<or> c = CHR ''U'') \<and> (d = CHR ''e'' \<or> d = CHR ''E'')
      | _ \<Rightarrow> False)"

text \<open>
  The repo token that the configuration sources give: the environment variable when it
  is set and not empty, else the keyword argument when there is one, else the entry of
  the configuration file. A token is available when that value is truthy.
\<close>

definition spec_repo_token :: "environment \<Rightarrow> dict \<Rightarrow> dict \<Rightarrow> pyval option" where
  "spec_repo_token env file_config kwargs =
     (case env ''COVERALLS_REPO_TOKEN'' of
        Some (c # cs) \<Rightarrow> Some (PStr (c # cs))
      | _ \<Rightarrow> (case map_of kwargs ''repo_token'' of
               Some v \<Rightarrow> Some v
             | None \<Rightarrow> map_of file_config ''repo_token''))"

definition spec_token_available :: "environment \<Rightarrow> dict \<Rightarrow> dict \<Rightarrow> bool" where
  "spec_token_available env file_config kwargs =
     (case spec_repo_token env file_config kwargs of None \<Rightarrow> False | Some v \<Rightarrow> truthy v)"

text \<open>The detected provider is CircleCI or Travis: no earlier provider's marker is set.\<close>

definition spec_trusted_provider :: "environment \<Rightarrow> bool" where
  "spec_trusted_provider env =
     (\<not> env_truthy env ''APPVEYOR'' \<and> \<not> env_truthy env ''BUILDKITE''
      \<and> (env_truthy env ''CIRCLECI'' \<or> env_truthy env ''TRAVIS''))"

text \<open>No report is cached: \<^verbatim>\<open>self._data\<close> is \<^verbatim>\<open>None\<close> (or empty, which \<^verbatim>\<open>if self._data\<close> treats alike).\<close>

definition uncached :: "coveralls \<Rightarrow> bool" where
  "uncached self = (case data self of None \<Rightarrow> True | Some d \<Rightarrow> d = [])"

text \<open>The eight commands that \<^verbatim>\<open>git_info\<close> runs, in the order in which it runs them.\<close>

definition git_commands :: "string list list" where
  "git_commands =
     [[''git'', ''rev-parse'', ''--abbrev-ref'', ''HEAD''],
      [''git'', ''remote'', ''-v''],
      [''git'', ''--no-pager'', ''log'', ''-1'', ''--pretty=format:%H''],
      [''git'', ''--no-pager'', ''log'', ''-1'', ''--pretty=format:%aN''],
      [''git'', ''--no-pager'', ''log'', ''-1'', ''--pretty=format:%ae''],
      [''git'', ''--no-pager'', ''log'', ''-1'', ''--pretty=format:%cN''],
      [''git'', ''--no-pager'', ''log'', ''-1'', ''--pretty=format:%ce''],
      [''git'', ''--no-pager'', ''log'', ''-1'', ''--pretty=format:%s'']]"

text \<open>
  The report of a first build before any merge: the files of the coverage engine, then
  the git data, then the configuration laid over both.
\<close>

definition assembled :: "pyval list \<Rightarrow> dict \<Rightarrow> dict \<Rightarrow> dict" where
  "assembled files git cfg =
     dict_update (dict_update [(''source_files'', PList files)] git) cfg"

text \<open>
  The diagnostic pass in the specification's words: a value is at fault when encoding it
  alone fails with a text-decoding error, and a file is at fault when one of its fields
  is. A record is well formed when it is a dictionary with a text \<^verbatim>\<open>name\<close> whose fields
  either encode or fail with a text-decoding error.
\<close>

definition decode_fails :: "(pyval \<Rightarrow> exn + string) \<Rightarrow> pyval \<Rightarrow> bool" where
  "decode_fails enc v = (case enc v of Inl (UnicodeDecodeError m) \<Rightarrow> True | _ \<Rightarrow> False)"

definition encodes_or_decode_fails :: "(pyval \<Rightarrow> exn + string) \<Rightarrow> pyval \<Rightarrow> bool" where
  "encodes_or_decode_fails enc v =
     (case enc v of Inr s \<Rightarrow> True | Inl (UnicodeDecodeError m) \<Rightarrow> True | Inl e \<Rightarrow> False)"

definition well_formed_record :: "(pyval \<Rightarrow> exn + string) \<Rightarrow> pyval \<Rightarrow> bool" where
  "well_formed_record enc f =
     (case f of
        PDict kvs \<Rightarrow>
          (case map_of kvs ''name'' of Some (PStr n) \<Rightarrow> True | _ \<Rightarrow> False)
          \<and> list_all (encodes_or_decode_fails enc) (map snd kvs)
      | _ \<Rightarrow> False)"

definition record_at_fault :: "(pyval \<Rightarrow> exn + string) \<Rightarrow> pyval \<Rightarrow> string list" where
  "record_at_fault enc f =
     (case f of
        PDict kvs \<Rightarrow>
          (case map_of kvs ''name'' of
             Some (PStr n) \<Rightarrow> if list_ex (decode_fails enc) (map snd kvs) then [n] else []
           | _ \<Rightarrow> [])
      | _ \<Rightarrow> [])"

definition spec_at_fault :: "(pyval \<Rightarrow> exn + string) \<Rightarrow> pyval list \<Rightarrow> string list" where
  "spec_at_fault enc files = concat (map (record_at_fault enc) files)"

text \<open>
  The pattern's fixed text starts nowhere inside \<open>before\<close>, when \<open>rest\<close> follows it: what
  follows \<open>before\<close> is the first place where a match can start.
\<close>

fun no_prefix_before :: "string \<Rightarrow> string \<Rightarrow> bool" where
  "no_prefix_before [] rest = True"
| "no_prefix_before (c # cs) rest =
     (\<not> starts_with pattern_prefix (c # cs @ rest) \<and> no_prefix_before cs rest)"

text \<open>
  The serialized report around its \<^verbatim>\<open>repo_token\<close> entry: the escaped text of a token as it
  stands between the quotes, one serialized entry, the text that \<^verbatim>\<open>json.dumps\<close> writes
  before the entry (the opening brace and the entries before it) and the text that it
  writes after the entry's closing quote.
\<close>

definition escaped :: "string \<Rightarrow> string" where
  "escaped s = concat (map escape_char s)"

definition json_item :: "string \<times> pyval \<Rightarrow> string" where
  "json_item kv = json_text (fst kv) @ '': '' @ json_dumps (snd kv)"

definition text_before :: "dict \<Rightarrow> string" where
  "text_before d =
     (let d1 = takeWhile (\<lambda>kv. fst kv \<noteq> ''repo_token'') d
      in ''{'' @ (if d1 = [] then [] else join '', '' (map json_item d1) @ '', ''))"

definition text_after :: "dict \<Rightarrow> string" where
  "text_after d =
     (let d2 = tl (dropWhile (\<lambda>kv. fst kv \<noteq> ''repo_token'') d)
      in (if d2 = [] then [] else '', '' @ join '', '' (map json_item d2)) @ ''}'')"

section \<open>Dictionaries\<close>

lemma map_of_dict_set: "map_of (dict_set k v d) = (map_of d)(k \<mapsto> v)"
  by (induction d) (auto simp: fun_eq_iff)

lemma map_of_dict_update:
  "distinct (map fst e) \<Longrightarrow>
   map_of (dict_update d e) k = (case map_of e k of Some v \<Rightarrow> Some v | None \<Rightarrow> map_of d k)"
proof (induction e arbitrary: d)
  case Nil
  then show ?case by simp
next
  case (Cons kv e)
  obtain k' v' where kv: "kv = (k', v')" by (cases kv)
  from Cons.prems kv have d: "distinct (map fst e)" and n: "map_of e k' = None"
    by (auto simp: map_of_eq_None_iff)
  show ?case using Cons.IH [OF d, of "dict_set k' v' d"] n kv
    by (auto simp: map_of_dict_set split: option.splits)
qed

lemma dict_set_not_Nil: "dict_set k v d \<noteq> []"
  by (cases d) (auto split: if_splits)

lemma dict_update_not_Nil: "d \<noteq> [] \<Longrightarrow> dict_update d e \<noteq> []"
proof (induction e arbitrary: d)
  case Nil
  then show ?case by simp
next
  case (Cons kv e)
  obtain k v where kv: "kv = (k, v)" by (cases kv)
  have "dict_update (dict_set k v d) e \<noteq> []"
    by (rule Cons.IH) (rule dict_set_not_Nil)
  then show ?case by (simp add: kv)
qed

section \<open>Provider detection\<close>

text \<open>
  Claim C4. Provider detection looks at the presence variables in the order AppVeyor,
  Buildkite, CircleCI, Travis. The first provider of that list whose presence variable is
  set and not empty gives the whole triple: its fixed service name, the value of its own
  job-id variable and its own pull-request reading, whatever the variables of the other
  providers hold. When no presence variable is set, the triple is \<^verbatim>\<open>coveralls-python\<close>
  with no job id and no pull request.
\<close>

theorem ci_detection_first_marker_wins:
  "fst (load_config_from_ci_environment env self) =
     (case find (\<lambda>(marker, name, job_var, pr). env_truthy env marker) spec_providers of
        None \<Rightarrow> (''coveralls-python'', None, None)
      | Some (marker, name, job_var, pr) \<Rightarrow> (name, env job_var, pr env))"
  by (simp add: spec_providers_def load_config_from_ci_environment_def
      load_config_from_appveyor_def load_config_from_buildkite_def
      load_config_from_circle_def load_config_from_travis_def load_config_from_unknown_def
      Let_def)

theorem ci_detection_first_marker_wins_witness:
  "fst (load_config_from_ci_environment
          [''TRAVIS'' \<mapsto> ''true'', ''TRAVIS_JOB_ID'' \<mapsto> ''42'', ''CIRCLE_BUILD_NUM'' \<mapsto> ''7'',
           ''APPVEYOR'' \<mapsto> '''']
          \<lparr>data = None, token_required = True, config = []\<rparr>)
     = (''travis-ci'', Some ''42'', None)
   \<and> fst (load_config_from_ci_environment
          [''TRAVIS'' \<mapsto> ''true'', ''TRAVIS_JOB_ID'' \<mapsto> ''42'', ''BUILDKITE'' \<mapsto> ''1'']
          \<lparr>data = None, token_required = True, config = []\<rparr>)
     = (''buildkite'', None, None)
   \<and> fst (load_config_from_ci_environment Map.empty
          \<lparr>data = None, token_required = True, config = []\<rparr>)
     = (''coveralls-python'', None, None)"
  using ci_detection_first_marker_wins
    [of "[''TRAVIS'' \<mapsto> ''true'', ''TRAVIS_JOB_ID'' \<mapsto> ''42'', ''CIRCLE_BUILD_NUM'' \<mapsto> ''7'',
           ''APPVEYOR'' \<mapsto> '''']" "\<lparr>data = None, token_required = True, config = []\<rparr>"]
    ci_detection_first_marker_wins
    [of "[''TRAVIS'' \<mapsto> ''true'', ''TRAVIS_JOB_ID'' \<mapsto> ''42'', ''BUILDKITE'' \<mapsto> ''1'']"
        "\<lparr>data = None, token_required = True, config = []\<rparr>"]
    ci_detection_first_marker_wins
    [of "Map.empty" "\<lparr>data = None, token_required = True, config = []\<rparr>"]
  by (simp add: spec_providers_def env_truthy_def)

section \<open>The CircleCI pull request\<close>

lemma split_on_not_Nil: "split_on sep s \<noteq> []"
  by (induction s) (auto split: list.splits)

lemma split_on_no_sep: "sep \<notin> set s \<Longrightarrow> split_on sep s = [s]"
  by (induction s) auto

lemma split_on_sep_length: "sep \<in> set s \<Longrightarrow> 2 \<le> length (split_on sep s)"
proof (induction s)
  case Nil
  then show ?case by simp
next
  case (Cons c cs)
  show ?case
  proof (cases "c = sep")
    case True
    then show ?thesis using split_on_not_Nil [of sep cs]
      by (cases "split_on sep cs") auto
  next
    case False
    with Cons show ?thesis by (auto split: list.splits)
  qed
qed

lemma last_split_on:
  "last (split_on sep s) = rev (takeWhile (\<lambda>c. c \<noteq> sep) (rev s))"
proof (induction s)
  case Nil
  then show ?case by simp
next
  case (Cons c cs)
  show ?case
  proof (cases "c = sep")
    case True
    then show ?thesis using Cons split_on_not_Nil [of sep cs]
      by (simp add: takeWhile_append)
  next
    case False
    show ?thesis
    proof (cases "sep \<in> set cs")
      case True
      from split_on_sep_length [OF True] obtain seg s2 segs where
        sp: "split_on sep cs = seg # s2 # segs"
        by (cases "split_on sep cs"; cases "tl (split_on sep cs)") auto
      then show ?thesis using Cons True False
        by (auto simp: takeWhile_append)
    next
      case no_sep: False
      then show ?thesis using False
        by (simp add: split_on_no_sep takeWhile_append)
    qed
  qed
qed

text \<open>
  Claim C6, as stated, fails: under CircleCI the pull request is not the last non-empty
  segment of \<^verbatim>\<open>CI_PULL_REQUEST\<close>. For the value \<^verbatim>\<open>pull/12/\<close> the last non-empty segment is
  \<^verbatim>\<open>12\<close>, and the code finds no pull request.
\<close>

theorem circle_pr_trailing_slash_counterexample:
  "snd (snd (load_config_from_circle [''CI_PULL_REQUEST'' \<mapsto> ''pull/12/''])) = None
   \<and> spec_last_nonempty_segment ''pull/12/'' = Some ''12''"
  by (simp add: load_config_from_circle_def env_get_default_def spec_last_nonempty_segment_def)

text \<open>
  Claim C6, amended. Under CircleCI the pull request is the text of \<^verbatim>\<open>CI_PULL_REQUEST\<close>
  after its last \<^verbatim>\<open>/\<close> (the whole value when it has none); there is no pull request when
  the variable is unset or that text is empty, as it is for an empty value and for a value
  that ends in \<^verbatim>\<open>/\<close>.
\<close>

theorem circle_pr_is_text_after_last_slash:
  "snd (snd (load_config_from_circle env)) =
     (case env ''CI_PULL_REQUEST'' of
        None \<Rightarrow> None
      | Some v \<Rightarrow>
          (let seg = rev (takeWhile (\<lambda>c. c \<noteq> CHR ''/'') (rev v))
           in if seg = [] then None else Some seg))"
  by (simp add: load_config_from_circle_def env_get_default_def last_split_on Let_def
      split: option.splits)

theorem circle_pr_is_text_after_last_slash_witness:
  "snd (snd (load_config_from_circle
       [''CI_PULL_REQUEST'' \<mapsto> ''https://github.com/o/r/pull/12''])) = Some ''12''
   \<and> snd (snd (load_config_from_circle [''CI_PULL_REQUEST'' \<mapsto> ''12/''])) = None
   \<and> snd (snd (load_config_from_circle Map.empty)) = None"
  using circle_pr_is_text_after_last_slash
      [of "[''CI_PULL_REQUEST'' \<mapsto> ''https://github.com/o/r/pull/12'']"]
    circle_pr_is_text_after_last_slash [of "[''CI_PULL_REQUEST'' \<mapsto> ''12/'']"]
    circle_pr_is_text_after_last_slash [of "Map.empty"]
  by simp

section \<open>Configuration from the environment\<close>

lemma lower_char_eq_iff:
  assumes l: "97 \<le> (of_char l :: nat)" "(of_char l :: nat) \<le> 122"
  shows "lower_char c = l \<longleftrightarrow>
         (of_char c :: nat) = of_char l \<or> (of_char c :: nat) + 32 = of_char l"
proof -
  have b: "(of_char c :: nat) < 256" by simp
  have "lower_char c = l \<longleftrightarrow> (of_char (lower_char c) :: nat) = of_char l"
    by simp
  also have "\<dots> \<longleftrightarrow> (of_char c :: nat) = of_char l \<or> (of_char c :: nat) + 32 = of_char l"
    using l b unfolding lower_char_def Let_def
    by (auto simp del: of_char_eq_iff)
  finally show ?thesis .
qed

lemma lower_char_letter:
  assumes "97 \<le> (of_char l :: nat)" "(of_char l :: nat) \<le> 122"
    and u: "(of_char u :: nat) + 32 = of_char l"
  shows "lower_char c = l \<longleftrightarrow> c = l \<or> c = u"
proof -
  have "(of_char c :: nat) + 32 = of_char l \<longleftrightarrow> (of_char c :: nat) = of_char u"
    using u by arith
  then show ?thesis
    using lower_char_eq_iff [OF assms(1,2), of c] by simp
qed

lemma lower_true_iff: "lower v = ''true'' \<longleftrightarrow> spec_true_ignoring_case v"
proof -
  have t: "\<And>c. lower_char c = CHR ''t'' \<longleftrightarrow> c = CHR ''t'' \<or> c = CHR ''T''"
    by (rule lower_char_letter) simp_all
  have r: "\<And>c. lower_char c = CHR ''r'' \<longleftrightarrow> c = CHR ''r'' \<or> c = CHR ''R''"
    by (rule lower_char_letter) simp_all
  have u: "\<And>c. lower_char c = CHR ''u'' \<longleftrightarrow> c = CHR ''u'' \<or> c = CHR ''U''"
    by (rule lower_char_letter) simp_all
  have e: "\<And>c. lower_char c = CHR ''e'' \<longleftrightarrow> c = CHR ''e'' \<or> c = CHR ''E''"
    by (rule lower_char_letter) simp_all
  show ?thesis
    by (simp add: lower_def spec_true_ignoring_case_def t r u e split: list.splits)
qed

text \<open>
  Claim C10. \<^verbatim>\<open>load_config_from_environment\<close> sets \<^verbatim>\<open>parallel\<close> to \<^verbatim>\<open>True\<close> when
  \<^verbatim>\<open>COVERALLS_PARALLEL\<close> is \<^verbatim>\<open>true\<close> in any mix of upper and lower case. For every other
  value, and when the variable is unset, the \<^verbatim>\<open>parallel\<close> entry is what it was: absent
  when it was absent, and never set to \<^verbatim>\<open>False\<close> by the loader. Every key other than
  \<^verbatim>\<open>repo_token\<close> and \<^verbatim>\<open>parallel\<close> keeps its value, and so do the cached report and the
  token requirement.
\<close>

theorem parallel_flag_only_set_on_true:
  "(let self' = load_config_from_environment env self;
        v = env_get_default env ''COVERALLS_PARALLEL'' []
    in (spec_true_ignoring_case v \<longrightarrow> map_of (config self') ''parallel'' = Some (PBool True))
     \<and> (\<not> spec_true_ignoring_case v \<longrightarrow>
          map_of (config self') ''parallel'' = map_of (config self) ''parallel'')
     \<and> (\<forall>k. k \<noteq> ''repo_token'' \<and> k \<noteq> ''parallel'' \<longrightarrow>
          map_of (config self') k = map_of (config self) k)
     \<and> data self' = data self \<and> token_required self' = token_required self)"
  by (simp add: load_config_from_environment_def Let_def map_of_dict_set lower_true_iff
      split: option.splits)

theorem parallel_flag_only_set_on_true_witness:
  "map_of (config (load_config_from_environment [''COVERALLS_PARALLEL'' \<mapsto> ''TrUe'']
      \<lparr>data = None, token_required = True, config = [(''service_name'', PStr ''x'')]\<rparr>))
      ''parallel'' = Some (PBool True)
   \<and> map_of (config (load_config_from_environment [''COVERALLS_PARALLEL'' \<mapsto> ''false'']
      \<lparr>data = None, token_required = True, config = [(''service_name'', PStr ''x'')]\<rparr>))
      ''parallel'' = None
   \<and> map_of (config (load_config_from_environment [''COVERALLS_PARALLEL'' \<mapsto> ''1'']
      \<lparr>data = None, token_required = True, config = [(''parallel'', PBool False)]\<rparr>))
      ''parallel'' = Some (PBool False)
   \<and> map_of (config (load_config_from_environment [''COVERALLS_PARALLEL'' \<mapsto> ''TrUe'']
      \<lparr>data = None, token_required = True, config = [(''service_name'', PStr ''x'')]\<rparr>))
      ''service_name'' = Some (PStr ''x'')"
  using parallel_flag_only_set_on_true [of "[''COVERALLS_PARALLEL'' \<mapsto> ''TrUe'']"
      "\<lparr>data = None, token_required = True, config = [(''service_name'', PStr ''x'')]\<rparr>"]
    parallel_flag_only_set_on_true [of "[''COVERALLS_PARALLEL'' \<mapsto> ''false'']"
      "\<lparr>data = None, token_required = True, config = [(''service_name'', PStr ''x'')]\<rparr>"]
    parallel_flag_only_set_on_true [of "[''COVERALLS_PARALLEL'' \<mapsto> ''1'']"
      "\<lparr>data = None, token_required = True, config = [(''parallel'', PBool False)]\<rparr>"]
  by (simp add: Let_def env_get_default_def spec_true_ignoring_case_def)

section \<open>The token check of the constructor\<close>

lemma config_after_environment:
  "map_of (config (load_config_from_environment env self)) ''repo_token'' =
     (case env ''COVERALLS_REPO_TOKEN'' of
        Some (c # cs) \<Rightarrow> Some (PStr (c # cs))
      | _ \<Rightarrow> map_of (config self) ''repo_token'')"
  by (simp add: load_config_from_environment_def map_of_dict_set Let_def
      split: option.splits list.splits)

lemma ci_environment_config:
  "config (snd (load_config_from_ci_environment env self)) = config self"
  by (simp add: load_config_from_ci_environment_def)

lemma ci_environment_token_required:
  "token_required (snd (load_config_from_ci_environment env self)) =
     (token_required self \<and> \<not> spec_trusted_provider env)"
  by (auto simp add: load_config_from_ci_environment_def spec_trusted_provider_def)

lemma environment_token_required:
  "token_required (load_config_from_environment env self) = token_required self"
  by (simp add: load_config_from_environment_def Let_def split: option.splits)

lemma init_shape:
  assumes "load_config_from_file config_file = (Inr (PDict file_config), logs)"
  shows "\<exists>self5. init env config_file token_req kwargs =
             (case ensure_token self5 of
                Inl e \<Rightarrow> (Inl e, logs)
              | Inr _ \<Rightarrow> (Inr self5, logs))
     \<and> map_of (config self5) ''repo_token'' =
         map_of (config (snd (load_config_from_ci_environment env
            (load_config_from_environment env
               \<lparr>data = None, token_required = token_req,
                config = dict_update file_config kwargs\<rparr>)))) ''repo_token''
     \<and> token_required self5 =
         token_required (snd (load_config_from_ci_environment env
            (load_config_from_environment env
               \<lparr>data = None, token_required = token_req,
                config = dict_update file_config kwargs\<rparr>)))"
proof -
  obtain name job pr self2 where r: "load_config_from_ci_environment env
            (load_config_from_environment env
               \<lparr>data = None, token_required = token_req,
                config = dict_update file_config kwargs\<rparr>) = ((name, job, pr), self2)"
    by (metis prod.collapse)
  show ?thesis
    unfolding init_def assms Let_def
    apply (simp only: prod.case sum.case pyval.case r snd_conv)
    apply (intro exI conjI)
      apply (rule refl)
     apply (simp add: map_of_dict_set split: option.splits)
    apply simp
    done
qed

text \<open>
  When the configuration file is missing, cannot be parsed for want of PyYAML, or parses
  to a mapping, the constructor does what the specification says. It raises the
  \<open>CoverallsException\<close> about the missing token exactly when the token is required by
  the caller, the detected provider is neither CircleCI nor Travis, and no configuration
  source gives a usable repo token; in every other case it returns the instance. The
  keyword arguments are a dictionary: their keys are distinct.
\<close>

lemma init_token_check:
  assumes "distinct (map fst kwargs)"
    and "load_config_from_file config_file = (Inr (PDict file_config), logs)"
  shows "(token_req \<and> \<not> spec_trusted_provider env
            \<and> \<not> spec_token_available env file_config kwargs
          \<longrightarrow> init env config_file token_req kwargs =
                 (Inl (CoverallsException no_token_message [AStr config_filename]), logs))
       \<and> (\<not> token_req \<or> spec_trusted_provider env
            \<or> spec_token_available env file_config kwargs
          \<longrightarrow> (\<exists>self. init env config_file token_req kwargs = (Inr self, logs)))"
proof -
  define self2 where "self2 = snd (load_config_from_ci_environment env
            (load_config_from_environment env
               \<lparr>data = None, token_required = token_req,
                config = dict_update file_config kwargs\<rparr>))"
  have tok: "map_of (config self2) ''repo_token'' = spec_repo_token env file_config kwargs"
    unfolding self2_def
    by (simp add: ci_environment_config config_after_environment spec_repo_token_def
        map_of_dict_update [OF assms(1)] split: option.splits list.splits)
  have req: "token_required self2 = (token_req \<and> \<not> spec_trusted_provider env)"
    unfolding self2_def
    by (simp add: ci_environment_token_required environment_token_required)
  from init_shape [OF assms(2), of env token_req kwargs] obtain self5 where
    i: "init env config_file token_req kwargs =
          (case ensure_token self5 of
             Inl e \<Rightarrow> (Inl e, logs)
           | Inr _ \<Rightarrow> (Inr self5, logs))"
    and t5: "map_of (config self5) ''repo_token'' = map_of (config self2) ''repo_token''"
    and r5: "token_required self5 = token_required self2"
    unfolding self2_def by blast
  show ?thesis
    unfolding i
    by (simp add: ensure_token_def t5 r5 tok req spec_token_available_def)
qed

lemma init_token_check_examples:
  "init Map.empty (Parsed (PDict [])) True [] =
     (Inl (CoverallsException no_token_message [AStr ''.coveralls.yml'']), [])
   \<and> (\<exists>self. init [''TRAVIS'' \<mapsto> ''true''] (Parsed (PDict [])) True [] = (Inr self, []))
   \<and> (\<exists>self. init [''APPVEYOR'' \<mapsto> ''True'']
                 (Parsed (PDict [(''repo_token'', PStr ''abc123'')])) True [] = (Inr self, []))
   \<and> (\<exists>self. init Map.empty (Parsed (PDict [])) False [] = (Inr self, []))"
proof -
  have l: "\<And>d. load_config_from_file (Parsed (PDict d)) = (Inr (PDict d), [])"
    by (simp add: load_config_from_file_def)
  have k: "distinct (map fst ([] :: dict))" by simp
  from init_token_check [OF k l, of True Map.empty "[]"]
    init_token_check [OF k l, of True "[''TRAVIS'' \<mapsto> ''true'']" "[]"]
    init_token_check [OF k l, of True "[''APPVEYOR'' \<mapsto> ''True'']"
       "[(''repo_token'', PStr ''abc123'')]"]
    init_token_check [OF k l, of False Map.empty "[]"]
  show ?thesis
    by (simp add: spec_trusted_provider_def spec_token_available_def spec_repo_token_def
        env_truthy_def config_filename_def)
qed

text \<open>
  Claim C3 fails on the code for a configuration file that is empty or holds only
  comments. \<^verbatim>\<open>yaml.safe_load\<close> parses such a file to \<^verbatim>\<open>None\<close>, \<^verbatim>\<open>load_config_from_file\<close>
  returns that \<^verbatim>\<open>None\<close>, and \<^verbatim>\<open>self.config.update(kwargs)\<close> raises \<open>AttributeError\<close>. With
  no token in the environment, in the keyword arguments or in the file, a required token
  and no CI provider, the constructor raises \<open>AttributeError\<close> and not the
  \<open>CoverallsException\<close> about the missing token. The same call without any
  configuration file raises the \<open>CoverallsException\<close>, as the claim says.
\<close>

theorem init_empty_config_file:
  "init Map.empty (Parsed PNone) True [] = (Inl AttributeError, [])
   \<and> init Map.empty NoFile True [] =
       (Inl (CoverallsException no_token_message [AStr ''.coveralls.yml'']),
        [Log DEBUG ''Missing %s file. Using only env variables.''
           [Val (PStr ''.coveralls.yml'')]])"
proof -
  have a: "init Map.empty (Parsed PNone) True [] = (Inl AttributeError, [])"
    by (simp add: init_def load_config_from_file_def)
  have l: "load_config_from_file NoFile =
      (Inr (PDict []), [Log DEBUG ''Missing %s file. Using only env variables.''
           [Val (PStr ''.coveralls.yml'')]])"
    by (simp add: load_config_from_file_def config_filename_def)
  have k: "distinct (map fst ([] :: dict))" by simp
  from init_token_check [OF k l, of True Map.empty] a show ?thesis
    by (simp add: spec_trusted_provider_def spec_token_available_def spec_repo_token_def
        env_truthy_def config_filename_def)
qed

section \<open>The cached report\<close>

lemma create_data_cached:
  "d \<noteq> [] \<Longrightarrow> data self = Some d \<Longrightarrow> create_data w self extra = (Inr d, self, [])"
  by (cases d) (simp_all add: create_data_def)

lemma create_data_coverage_fails:
  "uncached self \<Longrightarrow> get_coverage w self = Inl e \<Longrightarrow>
   create_data w self extra = (Inl e, self, [])"
  by (simp add: create_data_def uncached_def split: option.splits list.splits)

lemma create_data_git_fails:
  "uncached self \<Longrightarrow> get_coverage w self = Inr files \<Longrightarrow> git_info w = Inl e \<Longrightarrow>
   create_data w self extra =
     (Inl e, self\<lparr>data := Some [(''source_files'', PList files)]\<rparr>, [])"
  by (simp add: create_data_def uncached_def split: option.splits list.splits)

lemma create_data_built:
  assumes "uncached self" "get_coverage w self = Inr files" "git_info w = Inr git"
  shows "create_data w self extra =
     (let d3 = dict_update (dict_update [(''source_files'', PList files)] git) (config self);
          self3 = self\<lparr>data := Some d3\<rparr>
      in if truthy extra
         then (case py_contains ''source_files'' extra of
                 Inl e \<Rightarrow> (Inl e, self3, [])
               | Inr True \<Rightarrow>
                   (case extend_source_files d3 extra of
                      Inl e \<Rightarrow> (Inl e, self3, [])
                    | Inr merged \<Rightarrow>
                        (let d4 = dict_set ''source_files'' merged d3;
                             cfg4 = (if ''source_files'' \<in> set (map fst (config self))
                                     then dict_set ''source_files'' merged (config self)
                                     else config self)
                         in (Inr d4, self\<lparr>data := Some d4, config := cfg4\<rparr>, [])))
               | Inr False \<Rightarrow> (Inr d3, self3, [Log WARNING no_data_message []]))
         else (Inr d3, self3, []))"
  using assms by (simp add: create_data_def uncached_def split: option.splits list.splits)

lemma create_data_returns_cache:
  assumes "create_data w self extra = (Inr d, self', logs)"
  shows "data self' = Some d \<and> d \<noteq> []"
proof (cases "uncached self")
  case False
  then obtain c where "data self = Some c" "c \<noteq> []"
    by (auto simp: uncached_def split: option.splits)
  with assms create_data_cached [of c self w extra] show ?thesis by simp
next
  case True
  show ?thesis
  proof (cases "get_coverage w self")
    case (Inl e)
    with True assms show ?thesis by (simp add: create_data_coverage_fails)
  next
    case (Inr files)
    show ?thesis
    proof (cases "git_info w")
      case (Inl e)
      with True Inr assms show ?thesis by (simp add: create_data_git_fails)
    next
      case git: (Inr git)
      define d3 where
        "d3 = dict_update (dict_update [(''source_files'', PList files)] git) (config self)"
      have d3: "d3 \<noteq> []" unfolding d3_def by (simp add: dict_update_not_Nil)
      note b = create_data_built [OF True Inr git, of extra, unfolded Let_def, folded d3_def]
      show ?thesis
      proof (cases "truthy extra")
        case False
        with b assms d3 show ?thesis by auto
      next
        case t: True
        show ?thesis
        proof (cases "py_contains ''source_files'' extra")
          case (Inl e)
          with b t assms show ?thesis by simp
        next
          case c: (Inr has)
          show ?thesis
          proof (cases has)
            case False
            with b t c assms d3 show ?thesis by auto
          next
            case h: True
            show ?thesis
            proof (cases "extend_source_files d3 extra")
              case (Inl e)
              with b t c h assms show ?thesis by simp
            next
              case (Inr merged)
              with b t c h assms show ?thesis by (auto simp: dict_set_not_Nil)
            qed
          qed
        qed
      qed
    qed
  qed
qed

lemma example_git_info: "git_info example_world = Inr [(''git'', example_git)]"
  by (simp add: git_info_def gitlog_def run_command_def example_world_def example_git_def
      env_or_def env_get_default_def strip_def is_space_def splitlines_def is_linebreak_def
      split_ws_def Let_def)

lemma example_get_coverage: "get_coverage example_world example_instance = Inr [example_file]"
  by (simp add: get_coverage_def example_world_def)

lemma example_uncached: "uncached example_instance"
  by (simp add: uncached_def example_instance_def)

lemma example_create_data:
  "create_data example_world example_instance PNone =
     (Inr example_report, example_instance\<lparr>data := Some example_report\<rparr>, [])"
  unfolding create_data_built [OF example_uncached example_get_coverage example_git_info]
  by (simp add: example_instance_def example_report_def Let_def)

text \<open>
  Claim C1. The report is memoized per instance. Once a call of \<^verbatim>\<open>create_data\<close> has
  returned a report, the instance holds that report, and every later call on the
  instance returns the same report and leaves the instance as it is, whatever the world
  has become and whatever merge payload (or none) the later call passes; the later call
  logs nothing.
\<close>

theorem create_data_memoized:
  assumes "create_data w self extra = (Inr d, self', logs)"
  shows "data self' = Some d
         \<and> (\<forall>w' extra'. create_data w' self' extra' = (Inr d, self', []))"
  using create_data_returns_cache [OF assms] create_data_cached by blast

theorem create_data_memoized_witness:
  "create_data example_world example_instance PNone =
     (Inr example_report, example_instance\<lparr>data := Some example_report\<rparr>, [])
   \<and> create_data example_world (example_instance\<lparr>data := Some example_report\<rparr>)
        (PDict [(''source_files'', PList [example_file])]) =
     (Inr example_report, example_instance\<lparr>data := Some example_report\<rparr>, [])"
  using create_data_memoized [OF example_create_data] example_create_data by simp

section \<open>Failing commands\<close>

lemma git_info_needs_every_command:
  assumes "args \<in> set git_commands" "run_command w args = Inl e"
  shows "\<exists>e'. git_info w = Inl e'"
proof (cases "git_info w")
  case (Inl a)
  then show ?thesis by blast
next
  case (Inr g)
  then have "\<forall>a \<in> set git_commands. \<exists>s. run_command w a = Inr s"
    unfolding git_info_def gitlog_def git_commands_def
    by (simp split: sum.splits)
  with assms show ?thesis by fastforce
qed

lemma git_info_keys: "git_info w = Inr g \<Longrightarrow> \<exists>v. g = [(''git'', v)]"
  unfolding git_info_def Let_def by (simp split: sum.splits) blast

lemma run_command_nonzero:
  "popen w args = Inr (rc, out, err) \<Longrightarrow> rc \<noteq> 0 \<Longrightarrow>
   run_command w args =
     Inl (CoverallsException command_failed_message [AInt rc, ABytes out, ABytes err])"
  by (simp add: run_command_def)

text \<open>
  Claim C7. When the subprocess of \<^verbatim>\<open>run_command\<close> ends with a non-zero exit code, the
  call raises a \<open>CoverallsException\<close> whose message is formatted from the exit code, the
  captured stdout and the captured stderr. When the command is one of the eight git
  queries, \<^verbatim>\<open>git_info\<close> raises and returns no git data, and an instance without a cached
  report raises from \<^verbatim>\<open>create_data\<close> and holds no \<^verbatim>\<open>git\<close> entry afterwards. With exit code
  zero the call returns the decoded stdout: the default decoding, or the UTF-8 decoding
  when the default one fails.
\<close>

theorem run_command_exit_code:
  "(popen w args = Inr (rc, out, err) \<and> rc \<noteq> 0 \<longrightarrow>
      run_command w args =
        Inl (CoverallsException command_failed_message [AInt rc, ABytes out, ABytes err])
      \<and> (args \<in> set git_commands \<longrightarrow>
           (\<exists>e. git_info w = Inl e)
           \<and> (uncached self \<longrightarrow>
                (\<exists>e self' logs. create_data w self extra = (Inl e, self', logs)
                   \<and> (\<forall>d. data self' = Some d \<longrightarrow> map_of d ''git'' = None)))))
   \<and> (popen w args = Inr (0, out, err) \<and> decode_default w out = Some s \<longrightarrow>
        run_command w args = Inr s)
   \<and> (popen w args = Inr (0, out, err) \<and> decode_default w out = None
        \<and> decode_utf8 w out = Some s \<longrightarrow> run_command w args = Inr s)"
proof (intro conjI impI)
  assume a: "popen w args = Inr (rc, out, err) \<and> rc \<noteq> 0"
  then show r: "run_command w args =
        Inl (CoverallsException command_failed_message [AInt rc, ABytes out, ABytes err])"
    by (simp add: run_command_nonzero)
  assume g: "args \<in> set git_commands"
  from git_info_needs_every_command [OF g r] obtain e where e: "git_info w = Inl e" ..
  then show "\<exists>e. git_info w = Inl e" ..
  assume u: "uncached self"
  show "\<exists>e self' logs. create_data w self extra = (Inl e, self', logs)
          \<and> (\<forall>d. data self' = Some d \<longrightarrow> map_of d ''git'' = None)"
  proof (cases "get_coverage w self")
    case (Inl c)
    from create_data_coverage_fails [OF u Inl] u show ?thesis
      by (auto simp: uncached_def split: option.splits)
  next
    case (Inr files)
    from create_data_git_fails [OF u Inr e] show ?thesis by simp
  qed
next
  assume "popen w args = Inr (0, out, err) \<and> decode_default w out = Some s"
  then show "run_command w args = Inr s" by (simp add: run_command_def)
next
  assume "popen w args = Inr (0, out, err) \<and> decode_default w out = None
        \<and> decode_utf8 w out = Some s"
  then show "run_command w args = Inr s" by (simp add: run_command_def)
qed

theorem run_command_exit_code_witness:
  "run_command failing_git_world [''git'', ''remote'', ''-v''] =
     Inl (CoverallsException command_failed_message
            [AInt 128, ABytes [], ABytes ''fatal: not a git repository''])
   \<and> (\<exists>e. git_info failing_git_world = Inl e)
   \<and> (\<exists>e self' logs. create_data failing_git_world example_instance PNone = (Inl e, self', logs)
         \<and> (\<forall>d. data self' = Some d \<longrightarrow> map_of d ''git'' = None))
   \<and> run_command failing_git_world [''git'', ''rev-parse'', ''--abbrev-ref'', ''HEAD'']
       = Inr ''main''"
proof -
  have p: "popen failing_git_world [''git'', ''remote'', ''-v'']
             = Inr (128, [], ''fatal: not a git repository'')"
    by (simp add: failing_git_world_def)
  have q: "popen failing_git_world [''git'', ''rev-parse'', ''--abbrev-ref'', ''HEAD'']
             = Inr (0, ''main'', [])"
    by (simp add: failing_git_world_def)
  have d: "decode_default failing_git_world ''main'' = Some ''main''"
    by (simp add: failing_git_world_def example_world_def)
  have m: "[''git'', ''remote'', ''-v''] \<in> set git_commands"
    by (simp add: git_commands_def)
  from run_command_exit_code [where w = failing_git_world
      and args = "[''git'', ''remote'', ''-v'']" and rc = 128 and out = "[]"
      and err = "''fatal: not a git repository''" and self = example_instance
      and extra = PNone]
    run_command_exit_code [where w = failing_git_world
      and args = "[''git'', ''rev-parse'', ''--abbrev-ref'', ''HEAD'']" and out = "''main''"
      and err = "[]" and s = "''main''"]
    p q d m example_uncached
  show ?thesis by simp
qed

section \<open>A run without measurement data\<close>

text \<open>
  Claim C8. When the coverage engine raises its \<open>CoverageException\<close> while the report
  is built, \<^verbatim>\<open>wear\<close> does not raise: it returns a dictionary whose \<^verbatim>\<open>message\<close> entry
  describes the failure, for a dry run or not. The run leaves no event, so nothing is
  posted, and the instance is unchanged.
\<close>

theorem wear_coverage_failure:
  assumes "uncached self" "get_coverage w self = Inl (CoverageException m)"
  shows "wear w self dry_run =
           (Inr (PDict [(''message'', PStr (''Failure to gather coverage: '' @ m))]), self, [])"
  by (simp add: wear_def create_report_def create_data_coverage_fails [OF assms])

theorem wear_coverage_failure_witness:
  "wear no_data_world example_instance False =
     (Inr (PDict [(''message'', PStr ''Failure to gather coverage: No data to report.'')]),
      example_instance, [])"
proof -
  have "get_coverage no_data_world example_instance = Inl (CoverageException ''No data to report.'')"
    by (simp add: get_coverage_def no_data_world_def)
  from wear_coverage_failure [OF example_uncached this, of False] show ?thesis by simp
qed

section \<open>Merging a payload\<close>

lemma map_of_dict_update_other:
  "k \<notin> set (map fst e) \<Longrightarrow> map_of (dict_update d e) k = map_of d k"
proof (induction e arbitrary: d)
  case Nil
  then show ?case by simp
next
  case (Cons kv e)
  obtain k' v' where kv: "kv = (k', v')" by (cases kv)
  with Cons.prems have "k \<noteq> k'" "k \<notin> set (map fst e)" by auto
  with Cons.IH [of "dict_set k' v' d"] kv show ?case
    by (simp add: map_of_dict_set)
qed

text \<open>
  Claim C2, as stated, fails on an empty payload. The payload \<^verbatim>\<open>{}\<close> is supplied and has no
  \<^verbatim>\<open>source_files\<close> entry, yet the first build logs no warning: \<^verbatim>\<open>if extra:\<close> treats an
  empty payload as no payload.
\<close>

theorem empty_payload_no_warning_counterexample:
  "py_contains ''source_files'' (PDict []) = Inr False
   \<and> create_data example_world example_instance (PDict []) =
       (Inr example_report, example_instance\<lparr>data := Some example_report\<rparr>, [])"
  unfolding create_data_built [OF example_uncached example_get_coverage example_git_info]
  by (simp add: example_instance_def example_report_def Let_def)

text \<open>
  Claim C2, amended. On the first build of an instance, let \<open>old\<close> be the list under
  \<^verbatim>\<open>source_files\<close> once the git data and the configuration are laid over the coverage (it
  is the list of the coverage engine when the configuration has no \<^verbatim>\<open>source_files\<close> entry
  of its own). A non-empty payload dictionary whose \<^verbatim>\<open>source_files\<close> entry is a list \<open>xs\<close>
  makes the report's \<^verbatim>\<open>source_files\<close> the list \<open>old @ xs\<close>: nothing is removed or
  deduplicated, the length is the sum of both lengths, every other key is untouched and
  nothing is logged. A non-empty payload dictionary without a \<^verbatim>\<open>source_files\<close> entry
  leaves the report as it is and logs one warning. A payload that is not truthy (none,
  or an empty one) leaves the report as it is and logs nothing.
\<close>

theorem merge_appends_source_files:
  assumes u: "uncached self" and c: "get_coverage w self = Inr files"
    and g: "git_info w = Inr git"
    and o: "map_of (assembled files git (config self)) ''source_files'' = Some (PList old)"
  shows
   "(e \<noteq> [] \<and> map_of e ''source_files'' = Some (PList xs) \<longrightarrow>
       (\<exists>d self'. create_data w self (PDict e) = (Inr d, self', [])
           \<and> data self' = Some d
           \<and> map_of d ''source_files'' = Some (PList (old @ xs))
           \<and> (\<forall>k. k \<noteq> ''source_files'' \<longrightarrow>
                 map_of d k = map_of (assembled files git (config self)) k)))
    \<and> (e \<noteq> [] \<and> map_of e ''source_files'' = None \<longrightarrow>
         create_data w self (PDict e) =
           (Inr (assembled files git (config self)),
            self\<lparr>data := Some (assembled files git (config self))\<rparr>,
            [Log WARNING no_data_message []]))
    \<and> (\<not> truthy extra \<longrightarrow>
         create_data w self extra =
           (Inr (assembled files git (config self)),
            self\<lparr>data := Some (assembled files git (config self))\<rparr>, []))
    \<and> (''source_files'' \<notin> set (map fst (config self)) \<longrightarrow> old = files)"
proof (intro conjI impI)
  note b = create_data_built [OF u c g, unfolded Let_def, folded assembled_def]
  {
    assume a: "e \<noteq> [] \<and> map_of e ''source_files'' = Some (PList xs)"
    then have k: "''source_files'' \<in> set (map fst e)"
      by (metis map_of_eq_None_iff option.distinct(1) set_map)
    have x: "extend_source_files (assembled files git (config self)) (PDict e)
               = Inr (PList (old @ xs))"
      using a o by (simp add: extend_source_files_def)
    show "\<exists>d self'. create_data w self (PDict e) = (Inr d, self', [])
           \<and> data self' = Some d
           \<and> map_of d ''source_files'' = Some (PList (old @ xs))
           \<and> (\<forall>k. k \<noteq> ''source_files'' \<longrightarrow>
                 map_of d k = map_of (assembled files git (config self)) k)"
      using a k x by (simp add: b map_of_dict_set)
  }
  {
    assume a: "e \<noteq> [] \<and> map_of e ''source_files'' = None"
    then have k: "''source_files'' \<notin> set (map fst e)"
      by (simp add: map_of_eq_None_iff)
    show "create_data w self (PDict e) =
           (Inr (assembled files git (config self)),
            self\<lparr>data := Some (assembled files git (config self))\<rparr>,
            [Log WARNING no_data_message []])"
      using a k by (simp add: b)
  }
  {
    assume "\<not> truthy extra"
    then show "create_data w self extra =
           (Inr (assembled files git (config self)),
            self\<lparr>data := Some (assembled files git (config self))\<rparr>, [])"
      by (simp add: b)
  }
  {
    assume n: "''source_files'' \<notin> set (map fst (config self))"
    from git_info_keys [OF g] obtain v where git: "git = [(''git'', v)]" ..
    have "map_of (assembled files git (config self)) ''source_files'' = Some (PList files)"
      unfolding assembled_def by (simp add: map_of_dict_update_other [OF n] git)
    with o show "old = files" by simp
  }
qed

theorem merge_appends_source_files_witness:
  "(\<exists>d self'. create_data example_world example_instance
        (PDict [(''source_files'', PList [example_file, example_file])]) = (Inr d, self', [])
      \<and> data self' = Some d
      \<and> map_of d ''source_files'' = Some (PList [example_file, example_file, example_file]))
   \<and> create_data example_world example_instance (PDict [(''service_name'', PStr ''x'')]) =
       (Inr example_report, example_instance\<lparr>data := Some example_report\<rparr>,
        [Log WARNING no_data_message []])
   \<and> create_data example_world example_instance (PDict []) =
       (Inr example_report, example_instance\<lparr>data := Some example_report\<rparr>, [])"
proof -
  have a: "assembled [example_file] [(''git'', example_git)] (config example_instance)
             = example_report"
    by (simp add: assembled_def example_instance_def example_report_def)
  have o: "map_of (assembled [example_file] [(''git'', example_git)] (config example_instance))
             ''source_files'' = Some (PList [example_file])"
    by (simp add: a example_report_def)
  from merge_appends_source_files [OF example_uncached example_get_coverage example_git_info o,
      of "[(''source_files'', PList [example_file, example_file])]"
         "[example_file, example_file]" "PDict []"]
    merge_appends_source_files [OF example_uncached example_get_coverage example_git_info o,
      of "[(''service_name'', PStr ''x'')]" "[]" "PDict []"]
  show ?thesis by (simp add: a) blast
qed

section \<open>A report that cannot be encoded\<close>

lemma insert_PStr: "List.insert (PStr n) (map PStr ns) = map PStr (List.insert n ns)"
  by (auto simp: List.insert_def)

lemma texts_of_map_PStr: "texts_of (map PStr ns) = Some ns"
  by (induction ns) auto

lemma scan_values_ok:
  assumes "map_of kvs ''name'' = Some (PStr n)"
    and "list_all (encodes_or_decode_fails enc) vs"
  shows "scan_values enc kvs vs (map PStr ns) =
           Inr (map PStr (if list_ex (decode_fails enc) vs then List.insert n ns else ns))"
  using assms(2)
proof (induction vs arbitrary: ns)
  case Nil
  then show ?case by simp
next
  case (Cons v vs)
  then have vs: "list_all (encodes_or_decode_fails enc) vs"
    and v: "encodes_or_decode_fails enc v" by simp_all
  show ?case
  proof (cases "enc v")
    case (Inr s)
    then show ?thesis using Cons.IH [OF vs, of ns]
      by (simp add: decode_fails_def)
  next
    case (Inl e)
    with v obtain m where e: "e = UnicodeDecodeError m"
      by (cases e) (simp_all add: encodes_or_decode_fails_def)
    show ?thesis using Cons.IH [OF vs, of "List.insert n ns"] Inl e assms(1)
      by (simp add: decode_fails_def insert_PStr)
  qed
qed

lemma scan_files_ok:
  assumes "list_all (well_formed_record enc) files"
  shows "\<exists>ns'. scan_files enc files (map PStr ns) = Inr (map PStr ns')
           \<and> set ns' = set ns \<union> set (spec_at_fault enc files)
           \<and> (distinct ns \<longrightarrow> distinct ns')"
  using assms
proof (induction files arbitrary: ns)
  case Nil
  show ?case by (rule exI [of _ ns]) (simp add: spec_at_fault_def)
next
  case (Cons f fs)
  then have fs: "list_all (well_formed_record enc) fs" and f: "well_formed_record enc f"
    by simp_all
  from f obtain kvs where k1: "f = PDict kvs"
    by (cases f) (simp_all add: well_formed_record_def)
  from f k1 obtain x where k2: "map_of kvs ''name'' = Some x"
    by (cases "map_of kvs ''name''") (simp_all add: well_formed_record_def)
  from f k1 k2 obtain n where k3: "x = PStr n"
    by (cases x) (simp_all add: well_formed_record_def)
  from f k1 k2 k3 have k: "f = PDict kvs" "map_of kvs ''name'' = Some (PStr n)"
    "list_all (encodes_or_decode_fails enc) (map snd kvs)"
    by (simp_all add: well_formed_record_def)
  define ns1 where
    "ns1 = (if list_ex (decode_fails enc) (map snd kvs) then List.insert n ns else ns)"
  have s: "scan_values enc kvs (map snd kvs) (map PStr ns) = Inr (map PStr ns1)"
    unfolding ns1_def by (rule scan_values_ok [OF k(2,3)])
  from Cons.IH [OF fs, of ns1] obtain ns' where
    n: "scan_files enc fs (map PStr ns1) = Inr (map PStr ns')"
       "set ns' = set ns1 \<union> set (spec_at_fault enc fs)"
       "distinct ns1 \<longrightarrow> distinct ns'" by blast
  have "set ns1 = set ns \<union> set (record_at_fault enc f)"
    by (simp add: ns1_def record_at_fault_def k)
  moreover have "distinct ns \<longrightarrow> distinct ns1"
    by (simp add: ns1_def)
  ultimately show ?case using n
    by (auto simp: k(1) s spec_at_fault_def)
qed

lemma debug_bad_encoding_ok:
  assumes sf: "map_of d ''source_files'' = Some (PList files)"
    and wf: "list_all (well_formed_record (dumps w)) files"
  shows "\<exists>names. debug_bad_encoding w d =
            (Inr (), if names = [] then [] else [Log ERROR hint_message [Joined names]])
          \<and> set names = set (spec_at_fault (dumps w) files) \<and> distinct names"
proof -
  from scan_files_ok [OF wf, of "[]"] obtain names where
    n: "scan_files (dumps w) files [] = Inr (map PStr names)"
       "set names = set (spec_at_fault (dumps w) files)" "distinct names" by auto
  show ?thesis
    by (rule exI [of _ names]) (simp add: debug_bad_encoding_def sf n texts_of_map_PStr)
qed

text \<open>
  Claim C9. When \<^verbatim>\<open>json.dumps\<close> of the report fails with a \<open>UnicodeDecodeError\<close>,
  \<^verbatim>\<open>create_report\<close> logs the error, runs the diagnostic pass over the source-file
  records (well formed, as the data model has them) and raises the same
  \<open>UnicodeDecodeError\<close>: no text is returned, so nothing is serialized in part. The
  diagnostic pass logs one hint that names the files with a field that cannot be encoded
  alone, each once, and logs no hint when there is none.
\<close>

theorem create_report_decode_failure:
  assumes cd: "create_data w self PNone = (Inr d, self1, logs1)"
    and fail: "dumps w (PDict d) = Inl (UnicodeDecodeError m)"
    and sf: "map_of d ''source_files'' = Some (PList files)"
    and wf: "list_all (well_formed_record (dumps w)) files"
  shows "\<exists>names. create_report w self =
            (Inl (UnicodeDecodeError m), self1,
             logs1 @ [Log ERROR ''ERROR: While preparing JSON:'' [],
                      LogException (UnicodeDecodeError m)]
             @ (if names = [] then [] else [Log ERROR hint_message [Joined names]]))
          \<and> set names = set (spec_at_fault (dumps w) files) \<and> distinct names"
proof -
  from debug_bad_encoding_ok [OF sf wf] obtain names where
    n: "debug_bad_encoding w d =
            (Inr (), if names = [] then [] else [Log ERROR hint_message [Joined names]])"
       "set names = set (spec_at_fault (dumps w) files)" "distinct names" by blast
  show ?thesis
    by (rule exI [of _ names]) (simp add: create_report_def cd fail n Let_def)
qed

lemma bad_git_info: "git_info bad_world = Inr [(''git'', example_git)]"
  by (simp add: git_info_def gitlog_def run_command_def bad_world_def example_world_def
      example_git_def env_or_def env_get_default_def strip_def is_space_def splitlines_def
      is_linebreak_def split_ws_def Let_def)

lemma bad_get_coverage: "get_coverage bad_world example_instance = Inr [example_file, bad_file]"
  by (simp add: get_coverage_def bad_world_def)

lemma bad_create_data:
  "create_data bad_world example_instance PNone =
      (Inr bad_report, example_instance\<lparr>data := Some bad_report\<rparr>, [])"
  unfolding create_data_built [OF example_uncached bad_get_coverage bad_git_info]
  by (simp add: Let_def example_instance_def bad_report_def)

lemma bad_dumps: "dumps bad_world = strict_dumps"
  by (simp add: bad_world_def)

lemma undecodable_bad_file: "undecodable bad_file"
  by (simp add: bad_file_def)

lemma bad_fail: "dumps bad_world (PDict bad_report) = Inl (UnicodeDecodeError ''utf8'')"
  by (simp add: bad_dumps bad_report_def strict_dumps_def undecodable_bad_file)

lemma bad_wf: "list_all (well_formed_record strict_dumps) [example_file, bad_file]"
  by (simp add: well_formed_record_def example_file_def bad_file_def
      encodes_or_decode_fails_def strict_dumps_def)

lemma decode_fails_strict: "decode_fails strict_dumps v = undecodable v"
  by (simp add: decode_fails_def strict_dumps_def)

lemma bad_af: "spec_at_fault strict_dumps [example_file, bad_file] = [''b.py'']"
  by (simp add: spec_at_fault_def record_at_fault_def example_file_def bad_file_def
      decode_fails_strict)

lemma bad_sf: "map_of bad_report ''source_files'' = Some (PList [example_file, bad_file])"
  by (simp add: bad_report_def)

lemma singleton_list:
  assumes "set names = {x}" "distinct names"
  shows "names = [x]"
proof (cases names)
  case Nil
  with assms show ?thesis by simp
next
  case (Cons a rest)
  with assms have a: "a = x" and r: "set rest \<subseteq> {x}" "a \<notin> set rest" by auto
  then have "rest = []" by (cases rest) auto
  with Cons a show ?thesis by simp
qed

theorem create_report_decode_failure_witness:
  "create_report bad_world example_instance =
     (Inl (UnicodeDecodeError ''utf8''),
      example_instance\<lparr>data := Some bad_report\<rparr>,
      [Log ERROR ''ERROR: While preparing JSON:'' [],
       LogException (UnicodeDecodeError ''utf8''),
       Log ERROR hint_message [Joined [''b.py'']]])"
proof -
  note t = create_report_decode_failure [OF bad_create_data bad_fail bad_sf
      bad_wf [folded bad_dumps], unfolded bad_dumps bad_af]
  then obtain names where n: "create_report bad_world example_instance =
            (Inl (UnicodeDecodeError ''utf8''), example_instance\<lparr>data := Some bad_report\<rparr>,
             [] @ [Log ERROR ''ERROR: While preparing JSON:'' [],
                      LogException (UnicodeDecodeError ''utf8'')]
             @ (if names = [] then [] else [Log ERROR hint_message [Joined names]]))"
     and s: "set names = set [''b.py'']" and d: "distinct names"
    by (elim exE conjE)
  from s d have "names = [''b.py'']" by (intro singleton_list) simp_all
  with n show ?thesis by simp
qed

section \<open>The logged report\<close>

lemma starts_with_append: "starts_with p (p @ s)"
  by (induction p) auto

lemma until_quote_append:
  "CHR 0x22 \<notin> set v \<Longrightarrow> CHR 0x0A \<notin> set v \<Longrightarrow>
   until_quote (v @ CHR 0x22 # post) = Some (v, post)"
  by (induction v) auto

lemma lazy_group_append:
  "v \<noteq> [] \<Longrightarrow> CHR 0x22 \<notin> set v \<Longrightarrow> CHR 0x0A \<notin> set v \<Longrightarrow>
   lazy_group (v @ CHR 0x22 # post) = Some (v, post)"
  by (cases v) (auto simp: lazy_group_def until_quote_append)

lemma match_at_field:
  "v \<noteq> [] \<Longrightarrow> CHR 0x22 \<notin> set v \<Longrightarrow> CHR 0x0A \<notin> set v \<Longrightarrow>
   match_at (pattern_prefix @ v @ CHR 0x22 # post) = Some (v, post)"
  by (simp add: match_at_def starts_with_append lazy_group_append)

lemma re_sub_field:
  assumes "v \<noteq> []" "CHR 0x22 \<notin> set v" "CHR 0x0A \<notin> set v"
  shows "re_sub (pattern_prefix @ v @ CHR 0x22 # post) = replacement @ re_sub post"
proof -
  obtain c cs where p: "pattern_prefix @ v @ CHR 0x22 # post = c # cs"
    by (cases "pattern_prefix @ v @ CHR 0x22 # post") (simp_all add: pattern_prefix_def)
  show ?thesis
    using match_at_field [OF assms, of post] unfolding p by simp
qed

lemma re_sub_skip:
  "no_prefix_before pre rest \<Longrightarrow> re_sub (pre @ rest) = pre @ re_sub rest"
  by (induction pre) (auto simp: match_at_def)

lemma re_sub_first_field:
  assumes "no_prefix_before pre (pattern_prefix @ v @ CHR 0x22 # post)"
    and "v \<noteq> []" "CHR 0x22 \<notin> set v" "CHR 0x0A \<notin> set v"
  shows "re_sub (pre @ pattern_prefix @ v @ CHR 0x22 # post) = pre @ replacement @ re_sub post"
  using re_sub_skip [OF assms(1)] re_sub_field [OF assms(2,3,4), of post] by simp

lemma example_first: "no_prefix_before example_pre (pattern_prefix @ ''abc123'' @ CHR 0x22 # example_post)"
  by (simp add: example_pre_def example_file_def example_git_def json_text_def escape_char_def show_int_def pattern_prefix_def)

lemma example_post_sub: "re_sub example_post = example_post"
  by (simp add: example_post_def json_text_def escape_char_def match_at_def pattern_prefix_def)

lemma leak_git_info: "git_info leak_world = Inr [(''git'', example_git)]"
  by (simp add: git_info_def gitlog_def run_command_def leak_world_def example_world_def
      example_git_def env_or_def env_get_default_def strip_def is_space_def splitlines_def
      is_linebreak_def split_ws_def Let_def)

lemma leak_get_coverage: "get_coverage leak_world example_instance = Inr [leak_file]"
  by (simp add: get_coverage_def leak_world_def)

lemma leak_create_data:
  "create_data leak_world example_instance PNone =
     (Inr leak_report, example_instance\<lparr>data := Some leak_report\<rparr>, [])"
  unfolding create_data_built [OF example_uncached leak_get_coverage leak_git_info]
  by (simp add: example_instance_def leak_report_def Let_def)

lemma leak_dumps: "dumps leak_world v = Inr (json_dumps v)"
  by (simp add: leak_world_def example_world_def)

lemma leak_log_report:
  "log_report leak_report =
     (Inr (), [Log DEBUG reporting_message [Val (PInt 1)],
               Log DEBUG ''%s - %s/%s'' [Val (PStr ''conf.py''), Val (PInt 1), Val (PInt 1)]])"
  by (simp add: log_report_def leak_report_def leak_file_def py_sum_truthy_def)

lemma leak_create_report:
  "create_report leak_world example_instance =
     (Inr (json_dumps (PDict leak_report)), example_instance\<lparr>data := Some leak_report\<rparr>,
      [Log DEBUG (re_sub (json_dumps (PDict leak_report))) [],
       Log DEBUG reporting_message [Val (PInt 1)],
       Log DEBUG ''%s - %s/%s'' [Val (PStr ''conf.py''), Val (PInt 1), Val (PInt 1)]])"
  by (simp add: create_report_def leak_create_data leak_dumps leak_log_report Let_def)

lemma leak_log_string_contains:
  "contains ''abc123'' (re_sub (json_dumps (PDict leak_report)))"
  by (simp add: leak_report_def leak_file_def example_git_def json_text_def escape_char_def
      show_int_def match_at_def pattern_prefix_def lazy_group_def replacement_def)

text \<open>
  Claim C5, as stated, fails: the logged text can contain the token. The report of this
  run has the token \<^verbatim>\<open>abc123\<close>, one measured file mentions \<^verbatim>\<open>abc123\<close> in its source, and
  the text that \<^verbatim>\<open>create_report\<close> logs still contains \<^verbatim>\<open>abc123\<close>: the substitution
  touches the \<^verbatim>\<open>repo_token\<close> field only.
\<close>

theorem token_elsewhere_is_logged_counterexample:
  "map_of leak_report ''repo_token'' = Some (PStr ''abc123'')
   \<and> create_report leak_world example_instance =
       (Inr (json_dumps (PDict leak_report)), example_instance\<lparr>data := Some leak_report\<rparr>,
        [Log DEBUG (re_sub (json_dumps (PDict leak_report))) [],
         Log DEBUG reporting_message [Val (PInt 1)],
         Log DEBUG ''%s - %s/%s'' [Val (PStr ''conf.py''), Val (PInt 1), Val (PInt 1)]])
   \<and> contains ''abc123'' (re_sub (json_dumps (PDict leak_report)))"
  using leak_create_report leak_log_string_contains by (simp add: leak_report_def)

lemma create_report_logs_redacted:
  assumes "create_data w self PNone = (Inr d, self1, logs1)"
    and "dumps w (PDict d) = Inr json_string"
  shows "\<exists>r logs3. create_report w self =
           (r, self1, logs1 @ Log DEBUG (re_sub json_string) [] # logs3)"
proof (cases "log_report d")
  case (Pair r logs3)
  then show ?thesis using assms
    by (cases r) (simp_all add: create_report_def Let_def)
qed

lemma first_entry:
  "map_of d k = Some v \<Longrightarrow>
   d = takeWhile (\<lambda>kv. fst kv \<noteq> k) d @ (k, v) # tl (dropWhile (\<lambda>kv. fst kv \<noteq> k) d)"
  by (induction d) (auto split: if_splits)

lemma join_Cons: "join sep (x # xs) = x @ (if xs = [] then [] else sep @ join sep xs)"
  by (cases xs) simp_all

lemma join_append_Cons:
  "join sep (xs @ y # ys) =
     (if xs = [] then [] else join sep xs @ sep) @ y @ (if ys = [] then [] else sep @ join sep ys)"
proof (induction xs)
  case Nil
  show ?case by (simp add: join_Cons)
next
  case (Cons x xs)
  show ?case by (simp add: join_Cons Cons.IH)
qed

lemma hex_digit_plain:
  assumes "k < 16"
  shows "hex_digit k \<noteq> CHR 0x22 \<and> hex_digit k \<noteq> CHR 0x0A"
proof -
  have "hex_digit k \<in> set ''0123456789abcdef''"
    unfolding hex_digit_def using assms by (intro nth_mem) simp
  then show ?thesis by auto
qed

lemma hex_digits_of_char:
  "hex_digit ((of_char c :: nat) div 16) \<noteq> CHR 0x22"
  "hex_digit ((of_char c :: nat) mod 16) \<noteq> CHR 0x22"
  "hex_digit ((of_char c :: nat) div 16) \<noteq> CHR 0x0A"
  "hex_digit ((of_char c :: nat) mod 16) \<noteq> CHR 0x0A"
proof -
  have "(of_char c :: nat) < 256" by simp
  then have "(of_char c :: nat) div 16 < 16" "(of_char c :: nat) mod 16 < 16"
    by arith+
  then show "hex_digit ((of_char c :: nat) div 16) \<noteq> CHR 0x22"
    "hex_digit ((of_char c :: nat) mod 16) \<noteq> CHR 0x22"
    "hex_digit ((of_char c :: nat) div 16) \<noteq> CHR 0x0A"
    "hex_digit ((of_char c :: nat) mod 16) \<noteq> CHR 0x0A"
    using hex_digit_plain by blast+
qed

lemma escape_char_no_quote:
  assumes "c \<noteq> CHR 0x22"
  shows "CHR 0x22 \<notin> set (escape_char c)"
  using assms hex_digits_of_char(1,2) [of c]
  by (simp add: escape_char_def Let_def)

lemma escape_char_no_linefeed: "CHR 0x0A \<notin> set (escape_char c)"
  using hex_digits_of_char(3,4) [of c]
  by (simp add: escape_char_def Let_def)

lemma escape_char_not_Nil: "escape_char c \<noteq> []"
  by (simp add: escape_char_def Let_def)

lemma escaped_no_quote: "CHR 0x22 \<notin> set t \<Longrightarrow> CHR 0x22 \<notin> set (escaped t)"
proof (induction t)
  case Nil
  show ?case by (simp add: escaped_def)
next
  case (Cons c t)
  then have "c \<noteq> CHR 0x22" "CHR 0x22 \<notin> set (escaped t)" by auto
  then show ?case using escape_char_no_quote [of c] by (simp add: escaped_def)
qed

lemma escaped_no_linefeed: "CHR 0x0A \<notin> set (escaped t)"
  using escape_char_no_linefeed by (induction t) (auto simp: escaped_def)

lemma escaped_not_Nil: "t \<noteq> [] \<Longrightarrow> escaped t \<noteq> []"
  by (cases t) (simp_all add: escaped_def escape_char_not_Nil)

lemma token_item:
  "json_item (''repo_token'', PStr t) = pattern_prefix @ escaped t @ [CHR 0x22]"
  by (simp add: json_item_def json_text_def escaped_def pattern_prefix_def escape_char_def)

lemma json_dumps_dict: "json_dumps (PDict d) = ''{'' @ join '', '' (map json_item d) @ ''}''"
  by (simp add: json_item_def [abs_def])

lemma json_dumps_token_field:
  assumes "map_of d ''repo_token'' = Some (PStr t)"
  shows "json_dumps (PDict d) =
           text_before d @ pattern_prefix @ escaped t @ CHR 0x22 # text_after d"
proof -
  define d1 where "d1 = takeWhile (\<lambda>kv. fst kv \<noteq> ''repo_token'') d"
  define d2 where "d2 = tl (dropWhile (\<lambda>kv. fst kv \<noteq> ''repo_token'') d)"
  have d: "d = d1 @ (''repo_token'', PStr t) # d2"
    unfolding d1_def d2_def by (rule first_entry [OF assms])
  have "json_dumps (PDict d) =
      ''{'' @ join '', '' (map json_item d1 @ json_item (''repo_token'', PStr t) # map json_item d2)
      @ ''}''"
    unfolding json_dumps_dict by (subst d) simp
  also have "\<dots> = text_before d @ pattern_prefix @ escaped t @ CHR 0x22 # text_after d"
    unfolding join_append_Cons token_item text_before_def text_after_def Let_def
    by (simp add: d1_def [symmetric] d2_def [symmetric])
  finally show ?thesis .
qed

text \<open>
  Claim C5, amended. Let the report be serialized as \<^verbatim>\<open>json.dumps\<close> of Python 3 does, and
  let its \<^verbatim>\<open>repo_token\<close> be a text \<open>t\<close> that is not empty and holds no double quote. The
  serialized report is the text before the entry, then \<^verbatim>\<open>"repo_token": "\<close>, then the
  escaped \<open>t\<close>, then a double quote, then the text after the entry. When
  \<^verbatim>\<open>"repo_token": "\<close> starts nowhere in the text before the entry, the text that
  \<^verbatim>\<open>create_report\<close> logs is the text before the entry, then \<^verbatim>\<open>"repo_token": "[secure]"\<close>,
  then the substitution applied to the text after the entry: the literal \<^verbatim>\<open>[secure]\<close>
  stands in the place of the token. Where the report holds the text of the token
  elsewhere, that text is logged as it is. Nothing is said here of a token that is empty,
  holds a double quote or is not a text.
\<close>

theorem repo_token_field_redacted:
  assumes cd: "create_data w self PNone = (Inr d, self1, logs1)"
    and enc: "dumps w (PDict d) = Inr (json_dumps (PDict d))"
    and tok: "map_of d ''repo_token'' = Some (PStr t)"
    and t: "t \<noteq> []" "CHR 0x22 \<notin> set t"
    and first: "no_prefix_before (text_before d)
                  (pattern_prefix @ escaped t @ CHR 0x22 # text_after d)"
  shows "json_dumps (PDict d) =
           text_before d @ pattern_prefix @ escaped t @ CHR 0x22 # text_after d
       \<and> (\<exists>r logs3. create_report w self =
             (r, self1,
              logs1 @ Log DEBUG (text_before d @ replacement @ re_sub (text_after d)) []
                      # logs3))"
proof -
  note j = json_dumps_token_field [OF tok]
  have rs: "re_sub (json_dumps (PDict d)) =
              text_before d @ replacement @ re_sub (text_after d)"
    unfolding j
    by (rule re_sub_first_field [OF first escaped_not_Nil [OF t(1)] escaped_no_quote [OF t(2)]
          escaped_no_linefeed])
  from create_report_logs_redacted [OF cd enc]
  have "\<exists>r logs3. create_report w self =
             (r, self1,
              logs1 @ Log DEBUG (text_before d @ replacement @ re_sub (text_after d)) []
                      # logs3)"
    unfolding rs .
  with j show ?thesis by (intro conjI)
qed

lemma example_text_before: "text_before example_report = example_pre"
  by (simp add: text_before_def example_report_def example_pre_def json_item_def)

lemma example_text_after: "text_after example_report = example_post"
  by (simp add: text_after_def example_report_def example_post_def json_item_def)

lemma example_escaped: "escaped ''abc123'' = ''abc123''"
  by (simp add: escaped_def escape_char_def)

lemma example_dumps: "dumps example_world v = Inr (json_dumps v)"
  by (simp add: example_world_def)

lemma example_token: "map_of example_report ''repo_token'' = Some (PStr ''abc123'')"
  by (simp add: example_report_def)

lemma example_log_string_clean:
  "\<not> contains ''abc123'' (example_pre @ replacement @ example_post)
   \<and> contains ''[secure]'' (example_pre @ replacement @ example_post)"
  by (simp add: example_pre_def example_post_def example_file_def example_git_def
      json_text_def escape_char_def show_int_def pattern_prefix_def replacement_def)

theorem repo_token_field_redacted_witness:
  "json_dumps (PDict example_report) =
     example_pre @ pattern_prefix @ ''abc123'' @ CHR 0x22 # example_post
   \<and> (\<exists>r logs3. create_report example_world example_instance =
       (r, example_instance\<lparr>data := Some example_report\<rparr>,
        Log DEBUG (example_pre @ replacement @ example_post) [] # logs3))
   \<and> \<not> contains ''abc123'' (example_pre @ replacement @ example_post)
   \<and> contains ''[secure]'' (example_pre @ replacement @ example_post)"
proof -
  have t: "''abc123'' \<noteq> []" "CHR 0x22 \<notin> set ''abc123''" by simp_all
  have f: "no_prefix_before (text_before example_report)
             (pattern_prefix @ escaped ''abc123'' @ CHR 0x22 # text_after example_report)"
    unfolding example_text_before example_text_after example_escaped by (rule example_first)
  note r = repo_token_field_redacted [OF example_create_data example_dumps example_token t f,
      unfolded example_text_before example_text_after example_escaped example_post_sub]
  with example_log_string_clean show ?thesis by simp
qed

text \<open>
  What the amended claim leaves out. For a token that holds a double quote the pattern
  ends at the escaped quote, and what follows it in the token is logged; a token that is
  a number is not matched at all, and is logged as it is.
\<close>

lemma quoted_token_tail_is_logged:
  "re_sub (json_dumps (PDict [(''repo_token'', PStr (''abc'' @ [CHR 0x22] @ ''SECRETTAIL''))]))
     = ''{'' @ replacement @ ''SECRETTAIL'' @ [CHR 0x22] @ ''}''"
  by (simp add: json_text_def escape_char_def match_at_def pattern_prefix_def lazy_group_def
      replacement_def)

lemma numeric_token_is_logged:
  "re_sub (json_dumps (PDict [(''repo_token'', PInt 12345)]))
     = json_dumps (PDict [(''repo_token'', PInt 12345)])"
  by (simp add: json_text_def escape_char_def match_at_def pattern_prefix_def lazy_group_def
      replacement_def show_int_def)

end
